theory Spec2Isabelle
  imports Complex_Main
begin

section \<open>The tensor-graph runtime, as far as the sample observes it\<close>

text \<open>
  \<^verbatim>\<open>EvalMultithreads.cpp\<close> only composes calls into the graph runtime declared in
  \<^verbatim>\<open>CNTKLibrary.h\<close>, which is not part of the sample. Graph construction is modelled as
  building a term: every operator call yields a node holding its operands, its optional
  output rank and its name. Sizes (\<^verbatim>\<open>size_t\<close>) are natural numbers: \<^verbatim>\<open>inputDim\<close> and
  \<^verbatim>\<open>numOutputClasses\<close> are dimensions of tensors that are held in memory and the only
  products formed are with the constants 2 and 3, so no product leaves the range of
  \<^verbatim>\<open>size_t\<close>. \<^verbatim>\<open>float\<close> values are modelled as exact rationals.
\<close>

text \<open>Modelled from the spec: the runtime's shape type, a list of dimensions.\<close>

type_synonym NDShape = "nat list"

text \<open>Modelled from the spec: the runtime's element types; the sample uses \<open>Float\<close> only.\<close>

datatype DataType = Float | Double

text \<open>Modelled from the spec: the runtime's device abstraction (``CPU vs accelerator'').\<close>

datatype DeviceDescriptor = CPUDevice | GPUDevice nat

text \<open>
  Modelled from the spec: how a parameter tensor was initialised (``random-uniform or
  constant initialization''), that is
  \<^verbatim>\<open>NDArrayView::RandomUniform<float>(shape, lo, hi, seed, device)\<close> or the constant-value
  constructor \<^verbatim>\<open>Parameter(shape, value, device)\<close>.
\<close>

datatype ParameterInit = RandomUniform rat rat nat | ConstantValue rat

text \<open>
  Modelled from the spec: the runtime's \<^verbatim>\<open>Parameter\<close>, a handle on one tensor object
  (``owned once, referenced, not copied''). Copies of the handle denote the same tensor,
  two constructor calls never do. The object identity is the field \<open>uid\<close>, handed out in
  the order of construction by the code that creates the parameters.
\<close>

datatype Parameter = Parameter (uid: nat) (pshape: NDShape) (pinit: ParameterInit) (pdevice: DeviceDescriptor)

text \<open>
  Modelled from the spec: the runtime's graph nodes, one constructor for each operator the
  sample calls. A \<^verbatim>\<open>Variable\<close> operand is an input variable, a parameter, or the output
  of a function (the implicit conversion from \<^verbatim>\<open>FunctionPtr\<close>); the three are the leaves
  and inner nodes of one term type. \<^verbatim>\<open>Times\<close> and \<^verbatim>\<open>Plus\<close> carry a suffix because HOL
  has constants of these names.
\<close>

datatype Function =
    InputVariable NDShape DataType string
  | ParameterVariable Parameter
  | Times_op Function Function nat string
  | Plus_op Function Function string
  | Sigmoid Function string
  | CrossEntropyWithSoftmax Function Function string
  | ClassificationError Function Function string
  | Combine "Function list" string

text \<open>
  Modelled from the spec: the shape of an elementwise sum, which is missing with the
  runtime. The shorter shape is extended and each axis takes the larger dimension.
\<close>

fun broadcast :: "NDShape \<Rightarrow> NDShape \<Rightarrow> NDShape" where
  "broadcast [] ys = ys"
| "broadcast xs [] = xs"
| "broadcast (x # xs) (y # ys) = max x y # broadcast xs ys"

text \<open>
  Modelled from the spec: the runtime's shape inference \<^verbatim>\<open>Shape()\<close>, which is missing with
  the runtime. The spec reads a layer as \<open>nonlinearity(weight \<times> input + bias)\<close> on a rank-1
  input: the product keeps the leading \<open>outputRank\<close> axes of the weight and contracts its
  remaining axes with the leading axes of the input, the sum broadcasts, the nonlinearity
  is elementwise. The criterion nodes reduce to one element; \<open>Combine\<close> has no single
  output, and the sample never asks for the shape of either.
\<close>

fun Shape :: "Function \<Rightarrow> NDShape" where
  "Shape (InputVariable sh dt name) = sh"
| "Shape (ParameterVariable p) = pshape p"
| "Shape (Times_op l r outputRank name) =
     take outputRank (Shape l) @ drop (length (Shape l) - outputRank) (Shape r)"
| "Shape (Plus_op l r name) = broadcast (Shape l) (Shape r)"
| "Shape (Sigmoid x name) = Shape x"
| "Shape (CrossEntropyWithSoftmax p l name) = [1]"
| "Shape (ClassificationError p l name) = [1]"
| "Shape (Combine fs name) = []"

text \<open>Modelled from the spec: \<^verbatim>\<open>NDShape::Rank()\<close>, the number of axes of a shape.\<close>

definition Rank :: "NDShape \<Rightarrow> nat" where
  "Rank sh = length sh"

text \<open>
  Modelled from the spec: the parameter leaves of a graph, in traversal order and with
  repetitions, from which \<open>Parameters\<close> below is read.
\<close>

fun parameter_leaves :: "Function \<Rightarrow> Parameter list" where
  "parameter_leaves (InputVariable sh dt name) = []"
| "parameter_leaves (ParameterVariable p) = [p]"
| "parameter_leaves (Times_op l r outputRank name) = parameter_leaves l @ parameter_leaves r"
| "parameter_leaves (Plus_op l r name) = parameter_leaves l @ parameter_leaves r"
| "parameter_leaves (Sigmoid x name) = parameter_leaves x"
| "parameter_leaves (CrossEntropyWithSoftmax p l name) = parameter_leaves p @ parameter_leaves l"
| "parameter_leaves (ClassificationError p l name) = parameter_leaves p @ parameter_leaves l"
| "parameter_leaves (Combine fs name) = concat (map parameter_leaves fs)"

text \<open>
  Modelled from the spec: the input-variable leaves of a graph, in traversal order and with
  repetitions, from which \<open>Arguments\<close> below is read.
\<close>

fun input_leaves :: "Function \<Rightarrow> Function list" where
  "input_leaves (InputVariable sh dt name) = [InputVariable sh dt name]"
| "input_leaves (ParameterVariable p) = []"
| "input_leaves (Times_op l r outputRank name) = input_leaves l @ input_leaves r"
| "input_leaves (Plus_op l r name) = input_leaves l @ input_leaves r"
| "input_leaves (Sigmoid x name) = input_leaves x"
| "input_leaves (CrossEntropyWithSoftmax p l name) = input_leaves p @ input_leaves l"
| "input_leaves (ClassificationError p l name) = input_leaves p @ input_leaves l"
| "input_leaves (Combine fs name) = concat (map input_leaves fs)"

text \<open>
  Modelled from the spec: the introspection call \<^verbatim>\<open>Parameters()\<close>, which is missing with
  the runtime. The spec's data model gives a graph three counted collections, parameters,
  arguments and outputs; a parameter that is reachable along several paths is one object
  (``shared, referenced, not copied'') and is counted once.
\<close>

definition Parameters :: "Function \<Rightarrow> Parameter list" where
  "Parameters f = remdups (parameter_leaves f)"

text \<open>
  Modelled from the spec: the introspection call \<^verbatim>\<open>Arguments()\<close>, which is missing with
  the runtime: the graph's ``arguments (named inputs)'', each input variable once.
\<close>

definition Arguments :: "Function \<Rightarrow> Function list" where
  "Arguments f = remdups (input_leaves f)"

text \<open>
  Modelled from the spec: the introspection call \<^verbatim>\<open>Outputs()\<close>, which is missing with
  the runtime. A combined function exposes the outputs of the functions it combines
  (``loss, error metric, raw classifier output''), any other function its single output.
\<close>

fun Outputs :: "Function \<Rightarrow> Function list" where
  "Outputs (Combine fs name) = concat (map Outputs fs)"
| "Outputs f = [f]"

section \<open>Errors\<close>

text \<open>
  Every way the sample can stop early is a value: a failed \<^verbatim>\<open>assert\<close> (the model is of
  a build with assertions enabled; where the asserted condition holds, a build without
  them computes the same), a read or write outside an array (undefined behaviour in C++, a
  trap in the model), a remainder by zero (likewise), the \<^verbatim>\<open>std::runtime_error\<close> of the
  structural checks with its message, and the \<^verbatim>\<open>std::length_error\<close> of a vector
  constructed with a negative count.
\<close>

datatype error =
    AssertionFailed string
  | IndexOutOfRange
  | DivisionByZero
  | RuntimeError string
  | LengthError

definition array_at :: "'a list \<Rightarrow> nat \<Rightarrow> error + 'a" where
  "array_at xs i = (if i < length xs then Inr (xs ! i) else Inl IndexOutOfRange)"

section \<open>Layer builder and network assembler\<close>

text \<open>Lines 8 to 22.\<close>

definition FullyConnectedDNNLayerWithSharedParameters ::
  "Function \<Rightarrow> Parameter \<Rightarrow> Parameter \<Rightarrow> (Function \<Rightarrow> Function) \<Rightarrow> error + Function" where
  "FullyConnectedDNNLayerWithSharedParameters input timesParam plusParam nonLinearity =
     (if Rank (Shape input) \<noteq> 1 then Inl (AssertionFailed ''input.Shape().Rank() == 1'')
      else
        let timesFunction = Times_op (ParameterVariable timesParam) input 1 [];
            plusFunction = Plus_op (ParameterVariable plusParam) timesFunction []
        in Inr (nonLinearity plusFunction))"

text \<open>The body of the loop of line 36, at index \<open>i\<close>, on the root built so far.\<close>

definition hidden_layer_step ::
  "Parameter list \<Rightarrow> Parameter list \<Rightarrow> (Function \<Rightarrow> Function) \<Rightarrow> nat \<Rightarrow> error + Function \<Rightarrow> error + Function" where
  "hidden_layer_step hiddenLayerTimesParam hiddenLayerPlusParam nonLinearity i acc =
     (case acc of
        Inl e \<Rightarrow> Inl e
      | Inr classifierRoot \<Rightarrow>
          (case array_at hiddenLayerTimesParam (i - 1) of
             Inl e \<Rightarrow> Inl e
           | Inr timesParam \<Rightarrow>
               (case array_at hiddenLayerPlusParam (i - 1) of
                  Inl e \<Rightarrow> Inl e
                | Inr plusParam \<Rightarrow>
                    FullyConnectedDNNLayerWithSharedParameters classifierRoot timesParam plusParam nonLinearity)))"

text \<open>Lines 24 to 42.\<close>

definition FullyConnectedFeedForwardClassifierNetWithSharedParameters ::
  "Function \<Rightarrow> nat \<Rightarrow> Parameter \<Rightarrow> Parameter \<Rightarrow> Parameter list \<Rightarrow> Parameter list \<Rightarrow> Parameter
     \<Rightarrow> (Function \<Rightarrow> Function) \<Rightarrow> error + Function" where
  "FullyConnectedFeedForwardClassifierNetWithSharedParameters input numHiddenLayers inputTimesParam
       inputPlusParam hiddenLayerTimesParam hiddenLayerPlusParam outputTimesParam nonLinearity =
     (if \<not> numHiddenLayers \<ge> 1 then Inl (AssertionFailed ''numHiddenLayers >= 1'')
      else
        (case fold (hidden_layer_step hiddenLayerTimesParam hiddenLayerPlusParam nonLinearity)
                [1 ..< numHiddenLayers]
                (FullyConnectedDNNLayerWithSharedParameters input inputTimesParam inputPlusParam nonLinearity) of
           Inl e \<Rightarrow> Inl e
         | Inr classifierRoot \<Rightarrow> Inr (Times_op (ParameterVariable outputTimesParam) classifierRoot 1 [])))"

section \<open>The C library's random number generator\<close>

text \<open>
  \<^verbatim>\<open>srand\<close>, \<^verbatim>\<open>rand\<close> and \<^verbatim>\<open>RAND_MAX\<close> come from the C library, so the driver takes
  them as a parameter: a generator over a state type \<open>'s\<close>. \<^verbatim>\<open>srand(seed)\<close> updates the
  state, \<^verbatim>\<open>rand()\<close> returns a value and the next state.
\<close>

record 's CRand =
  srand :: "nat \<Rightarrow> 's \<Rightarrow> 's"
  rand :: "'s \<Rightarrow> nat \<times> 's"
  RAND_MAX :: nat



section \<open>Tensor views, values and forward evaluation\<close>

text \<open>
  Modelled from the spec: the runtime's tensor-view type, as constructed by the driver from
  a shape, a buffer with its element count, a device and a read-only flag.
\<close>

record NDArrayView =
  view_shape :: NDShape
  view_data :: "rat list"
  view_size :: nat
  view_device :: DeviceDescriptor
  view_readOnly :: bool

text \<open>Modelled from the spec: the runtime's \<^verbatim>\<open>Value\<close>, a batch wrapping one tensor view.\<close>

datatype Value = Value NDArrayView

text \<open>
  Modelled from the spec: \<^verbatim>\<open>Forward\<close> belongs to the runtime (``treated as opaque
  collaborator''). The driver's part is the call: the map from variables to values it
  passes, the map of requested outputs (each to a null value pointer) and the device. A
  function stands for its own output variable.
\<close>

record ForwardCall =
  fw_arguments :: "(Function \<times> Value) list"
  fw_outputs :: "(Function \<times> Value option) list"
  fw_device :: DeviceDescriptor

section \<open>Evaluation driver\<close>

text \<open>Line 91, at index \<open>i\<close>.\<close>

definition input_step :: "'s CRand \<Rightarrow> nat \<Rightarrow> rat list \<times> 's \<Rightarrow> rat list \<times> 's" where
  "input_step g i acc =
     (case acc of (inputData, s) \<Rightarrow>
        (case rand g s of (r, s') \<Rightarrow>
           (inputData[i := of_nat r / of_nat (RAND_MAX g)], s')))"

text \<open>Line 98, at sample \<open>i\<close>.\<close>

definition label_step :: "'s CRand \<Rightarrow> nat \<Rightarrow> nat \<Rightarrow> error + rat list \<times> 's \<Rightarrow> error + rat list \<times> 's" where
  "label_step g numOutputClasses i acc =
     (case acc of
        Inl e \<Rightarrow> Inl e
      | Inr (labelData, s) \<Rightarrow>
          (case rand g s of (r, s') \<Rightarrow>
             if numOutputClasses = 0 then Inl DivisionByZero
             else
               let k = (i * numOutputClasses) + (r mod numOutputClasses)
               in if k < length labelData then Inr (labelData[k := 1], s') else Inl IndexOutOfRange))"

text \<open>Lines 89 to 105: one run of the loop body, from generator state \<open>s\<close>.\<close>

definition evaluation_run ::
  "'s CRand \<Rightarrow> nat \<Rightarrow> nat \<Rightarrow> nat \<Rightarrow> Function \<Rightarrow> Function \<Rightarrow> Function \<Rightarrow> Function \<Rightarrow> DeviceDescriptor
     \<Rightarrow> 's \<Rightarrow> error + ForwardCall \<times> 's" where
  "evaluation_run g inputDim numOutputClasses numSamples inputVar labelsVar classifierOutputFunction
       predictionFunction computeDevice s =
     (case fold (input_step g) [0 ..< inputDim * numSamples] (replicate (inputDim * numSamples) 0, s) of
        (inputData, s1) \<Rightarrow>
          let inputShape = [inputDim, 1, numSamples];
              inputValue = Value \<lparr>view_shape = inputShape, view_data = inputData,
                                  view_size = length inputData, view_device = CPUDevice,
                                  view_readOnly = True\<rparr>
          in (case fold (label_step g numOutputClasses) [0 ..< numSamples]
                     (Inr (replicate (numOutputClasses * numSamples) 0, s1)) of
                Inl e \<Rightarrow> Inl e
              | Inr (labelData, s2) \<Rightarrow>
                  let labelShape = [numOutputClasses, 1, numSamples];
                      labelValue = Value \<lparr>view_shape = labelShape, view_data = labelData,
                                          view_size = length labelData, view_device = CPUDevice,
                                          view_readOnly = True\<rparr>;
                      outputs = [(classifierOutputFunction, None), (predictionFunction, None)]
                  in Inr (\<lparr>fw_arguments = [(inputVar, inputValue), (labelsVar, labelValue)],
                           fw_outputs = outputs, fw_device = computeDevice\<rparr>, s2)))"

text \<open>The loop of line 87 at iteration \<open>t\<close>: the calls made so far and the generator state.\<close>

definition evaluation_step ::
  "'s CRand \<Rightarrow> nat \<Rightarrow> nat \<Rightarrow> nat \<Rightarrow> Function \<Rightarrow> Function \<Rightarrow> Function \<Rightarrow> Function \<Rightarrow> DeviceDescriptor
     \<Rightarrow> nat \<Rightarrow> error + ForwardCall list \<times> 's \<Rightarrow> error + ForwardCall list \<times> 's" where
  "evaluation_step g inputDim numOutputClasses numSamples inputVar labelsVar classifierOutputFunction
       predictionFunction computeDevice t acc =
     (case acc of
        Inl e \<Rightarrow> Inl e
      | Inr (calls, s) \<Rightarrow>
          (case evaluation_run g inputDim numOutputClasses numSamples inputVar labelsVar
                  classifierOutputFunction predictionFunction computeDevice s of
             Inl e \<Rightarrow> Inl e
           | Inr (call, s') \<Rightarrow> Inr (calls @ [call], s')))"

text \<open>Lines 57 to 71: the graph of one worker.\<close>

record ClassifierModel =
  cm_inputVar :: Function
  cm_labelsVar :: Function
  cm_classifierOutputFunction :: Function
  cm_trainingLossFunction :: Function
  cm_predictionFunction :: Function
  cm_ffNet :: Function

definition create_network ::
  "nat \<Rightarrow> nat \<Rightarrow> nat \<Rightarrow> Parameter \<Rightarrow> Parameter \<Rightarrow> Parameter list \<Rightarrow> Parameter list \<Rightarrow> Parameter
     \<Rightarrow> error + ClassifierModel" where
  "create_network inputDim numOutputClasses numHiddenLayers inputTimesParam inputPlusParam
       hiddenLayerTimesParam hiddenLayerPlusParam outputTimesParam =
     (let inputVar = InputVariable [inputDim] Float ''Features''
      in case FullyConnectedFeedForwardClassifierNetWithSharedParameters inputVar numHiddenLayers
                inputTimesParam inputPlusParam hiddenLayerTimesParam hiddenLayerPlusParam
                outputTimesParam (\<lambda>x. Sigmoid x []) of
           Inl e \<Rightarrow> Inl e
         | Inr classifierOutputFunction \<Rightarrow>
             let labelsVar = InputVariable [numOutputClasses] Float ''Labels'';
                 trainingLossFunction =
                   CrossEntropyWithSoftmax classifierOutputFunction labelsVar ''LossFunction'';
                 predictionFunction =
                   ClassificationError classifierOutputFunction labelsVar ''ClassificationError'';
                 ffNet = Combine [trainingLossFunction, predictionFunction, classifierOutputFunction]
                           ''ClassifierModel''
             in Inr \<lparr>cm_inputVar = inputVar, cm_labelsVar = labelsVar,
                     cm_classifierOutputFunction = classifierOutputFunction,
                     cm_trainingLossFunction = trainingLossFunction,
                     cm_predictionFunction = predictionFunction, cm_ffNet = ffNet\<rparr>)"

text \<open>Lines 73 to 80: the structural checks on the assembled graph.\<close>

definition check_structure :: "Function \<Rightarrow> nat \<Rightarrow> error + unit" where
  "check_structure ffNet numHiddenLayers =
     (if length (Parameters ffNet) \<noteq> (numHiddenLayers * 2) + 1 then
        Inl (RuntimeError
          ''EvaluationNewNetworkWithSharedParameters: Function does not have expected Parameter count'')
      else if length (Arguments ffNet) \<noteq> 2 then
        Inl (RuntimeError
          ''EvaluationNewNetworkWithSharedParameters: Function does not have expected Argument count'')
      else if length (Outputs ffNet) \<noteq> 3 then
        Inl (RuntimeError
          ''EvaluationNewNetworkWithSharedParameters: Function does not have expected Output count'')
      else Inr ())"

text \<open>
  Lines 44 to 107: the graph, the checks, then the runs. The result is the list of forward
  calls made, in order, and the generator state left behind. An error leaves no call: the
  structural checks come before the loop, and a remainder by zero stops the first run
  before its call.
\<close>

definition EvaluationNewNetworkWithSharedParameters ::
  "'s CRand \<Rightarrow> nat \<Rightarrow> nat \<Rightarrow> nat \<Rightarrow> Parameter \<Rightarrow> Parameter \<Rightarrow> Parameter list \<Rightarrow> Parameter list
     \<Rightarrow> Parameter \<Rightarrow> DeviceDescriptor \<Rightarrow> 's \<Rightarrow> error + ForwardCall list \<times> 's" where
  "EvaluationNewNetworkWithSharedParameters g inputDim numOutputClasses numHiddenLayers inputTimesParam
       inputPlusParam hiddenLayerTimesParam hiddenLayerPlusParam outputTimesParam computeDevice s =
     (case create_network inputDim numOutputClasses numHiddenLayers inputTimesParam inputPlusParam
             hiddenLayerTimesParam hiddenLayerPlusParam outputTimesParam of
        Inl e \<Rightarrow> Inl e
      | Inr m \<Rightarrow>
          (case check_structure (cm_ffNet m) numHiddenLayers of
             Inl e \<Rightarrow> Inl e
           | Inr u \<Rightarrow>
               let iterationCount = 4;
                   randSeed = 2;
                   s0 = srand g randSeed s;
                   numSamples = 3
               in fold (evaluation_step g inputDim numOutputClasses numSamples (cm_inputVar m)
                          (cm_labelsVar m) (cm_classifierOutputFunction m) (cm_predictionFunction m)
                          computeDevice)
                    [0 ..< iterationCount] (Inr ([], s0))))"

section \<open>Thread fan-out\<close>

text \<open>
  What the main thread does is a list of events, in program order: a thread started on
  \<^verbatim>\<open>EvaluationNewNetworkWithSharedParameters\<close> with its arguments, a join, a forward
  evaluation of its own, a line printed to \<^verbatim>\<open>stderr\<close> (the format string and its
  arguments), a flush.
\<close>

record WorkerArgs =
  w_inputDim :: nat
  w_numOutputClasses :: nat
  w_numHiddenLayers :: nat
  w_inputTimesParam :: Parameter
  w_inputPlusParam :: Parameter
  w_hiddenLayerTimesParam :: "Parameter list"
  w_hiddenLayerPlusParam :: "Parameter list"
  w_outputTimesParam :: Parameter
  w_computeDevice :: DeviceDescriptor

datatype fprintf_arg = ArgInt int | ArgVariables "Function list"

datatype MainEvent =
    ThreadStart int WorkerArgs
  | ThreadJoin int
  | ForwardEvaluation ForwardCall
  | Fprintf string "fprintf_arg list"
  | Fflush


text \<open>
  Lines 111 to 133: the shared parameters, numbered in the order of their construction,
  as the arguments every worker is started with.
\<close>

definition shared_parameters :: "DeviceDescriptor \<Rightarrow> WorkerArgs" where
  "shared_parameters device =
     (let inputDim = 937;
          numOutputClasses = 9304;
          numHiddenLayers = 6;
          hiddenLayersDim = 2048;
          inputTimesParam = Parameter 0 [hiddenLayersDim, inputDim] (RandomUniform (- (1 / 2)) (1 / 2) 1) device;
          inputPlusParam = Parameter 1 [hiddenLayersDim] (ConstantValue 0) device;
          hiddenLayerTimesParam = [
            Parameter 2 [hiddenLayersDim, hiddenLayersDim] (RandomUniform (- (1 / 2)) (1 / 2) 1) device,
            Parameter 3 [hiddenLayersDim, hiddenLayersDim] (RandomUniform (- (1 / 2)) (1 / 2) 1) device,
            Parameter 4 [hiddenLayersDim, hiddenLayersDim] (RandomUniform (- (1 / 2)) (1 / 2) 1) device,
            Parameter 5 [hiddenLayersDim, hiddenLayersDim] (RandomUniform (- (1 / 2)) (1 / 2) 1) device,
            Parameter 6 [hiddenLayersDim, hiddenLayersDim] (RandomUniform (- (1 / 2)) (1 / 2) 1) device];
          hiddenLayerPlusParam = [
            Parameter 7 [hiddenLayersDim] (ConstantValue 0) device,
            Parameter 8 [hiddenLayersDim] (ConstantValue 0) device,
            Parameter 9 [hiddenLayersDim] (ConstantValue 0) device,
            Parameter 10 [hiddenLayersDim] (ConstantValue 0) device,
            Parameter 11 [hiddenLayersDim] (ConstantValue 0) device];
          outputTimesParam = Parameter 12 [numOutputClasses, hiddenLayersDim] (RandomUniform (- (1 / 2)) (1 / 2) 1) device
      in \<lparr>w_inputDim = inputDim, w_numOutputClasses = numOutputClasses,
          w_numHiddenLayers = numHiddenLayers, w_inputTimesParam = inputTimesParam,
          w_inputPlusParam = inputPlusParam, w_hiddenLayerTimesParam = hiddenLayerTimesParam,
          w_hiddenLayerPlusParam = hiddenLayerPlusParam, w_outputTimesParam = outputTimesParam,
          w_computeDevice = device\<rparr>)"

text \<open>Line 139 and lines 144 to 146, at thread index \<open>th\<close>.\<close>

definition spawn_step :: "WorkerArgs \<Rightarrow> nat \<Rightarrow> MainEvent list \<Rightarrow> MainEvent list" where
  "spawn_step a th events = events @ [ThreadStart (int th) a]"

definition join_step :: "nat \<Rightarrow> MainEvent list \<Rightarrow> MainEvent list" where
  "join_step th events =
     events @ [ThreadJoin (int th), Fprintf ''thread %d joined.\<newline>'' [ArgInt (int th)], Fflush]"

text \<open>
  Lines 109 to 148. The vector of line 136 takes its size from an \<^verbatim>\<open>int\<close>: a negative
  count converts to a size beyond any vector and the constructor throws.
\<close>

definition EvalMultiThreadsWithNewNetwork :: "DeviceDescriptor \<Rightarrow> int \<Rightarrow> error + MainEvent list" where
  "EvalMultiThreadsWithNewNetwork device threadCount =
     (let a = shared_parameters device
      in if threadCount < 0 then Inl LengthError
         else Inr (fold join_step [0 ..< nat threadCount]
                     (fold (spawn_step a) [0 ..< nat threadCount] [])))"

section \<open>The clone entry point\<close>

text \<open>
  Lines 150 to 165. These builders create their parameters themselves; \<open>n\<close> is the number
  of parameters constructed so far and is returned advanced.
\<close>

definition SetupFullyConnectedLinearLayer ::
  "Function \<Rightarrow> nat \<Rightarrow> DeviceDescriptor \<Rightarrow> string \<Rightarrow> nat \<Rightarrow> error + Function \<times> nat" where
  "SetupFullyConnectedLinearLayer input outputDim device outputName n =
     (if Rank (Shape input) \<noteq> 1 then Inl (AssertionFailed ''input.Shape().Rank() == 1'')
      else
        (case array_at (Shape input) 0 of
           Inl e \<Rightarrow> Inl e
         | Inr inputDim \<Rightarrow>
             let timesParam = Parameter n [outputDim, inputDim] (RandomUniform (- (1 / 20)) (1 / 20) 1) device;
                 timesFunction = Times_op (ParameterVariable timesParam) input 1 [];
                 plusParam = Parameter (n + 1) [outputDim] (RandomUniform (- (1 / 20)) (1 / 20) 1) device
             in Inr (Plus_op (ParameterVariable plusParam) timesFunction outputName, n + 2)))"

definition SetupFullyConnectedDNNLayer ::
  "Function \<Rightarrow> nat \<Rightarrow> DeviceDescriptor \<Rightarrow> (Function \<Rightarrow> Function) \<Rightarrow> nat \<Rightarrow> error + Function \<times> nat" where
  "SetupFullyConnectedDNNLayer input outputDim device nonLinearity n =
     (case SetupFullyConnectedLinearLayer input outputDim device [] n of
        Inl e \<Rightarrow> Inl e
      | Inr (f, n') \<Rightarrow> Inr (nonLinearity f, n'))"

text \<open>The body of the loop of line 213.\<close>

definition clone_layer_step ::
  "nat \<Rightarrow> DeviceDescriptor \<Rightarrow> nat \<Rightarrow> error + Function \<times> nat \<Rightarrow> error + Function \<times> nat" where
  "clone_layer_step hiddenLayersDim device i acc =
     (case acc of
        Inl e \<Rightarrow> Inl e
      | Inr (classifierRoot, n) \<Rightarrow>
          SetupFullyConnectedDNNLayer classifierRoot hiddenLayersDim device (\<lambda>x. Sigmoid x []) n)"

text \<open>Lines 204 to 223: the graph.\<close>

definition clone_network :: "DeviceDescriptor \<Rightarrow> error + Function" where
  "clone_network device =
     (let inputDim = 937;
          numOutputClasses = 9304;
          numHiddenLayers = 6;
          hiddenLayersDim = 2048;
          inputVar = InputVariable [inputDim] Float ''features''
      in if \<not> numHiddenLayers \<ge> (1::nat) then Inl (AssertionFailed ''numHiddenLayers >= 1'')
         else
           (case fold (clone_layer_step hiddenLayersDim device) [1 ..< numHiddenLayers]
                   (SetupFullyConnectedDNNLayer inputVar hiddenLayersDim device (\<lambda>x. Sigmoid x []) 0) of
              Inl e \<Rightarrow> Inl e
            | Inr (classifierRoot, n) \<Rightarrow>
                let outputTimesParam =
                      Parameter n [numOutputClasses, hiddenLayersDim] (RandomUniform (- (1 / 2)) (1 / 2) 1) device;
                    classifierOutput =
                      Times_op (ParameterVariable outputTimesParam) classifierRoot 1 ''classifierOutput'';
                    labelsVar = InputVariable [numOutputClasses] Float ''Labels'';
                    trainingLoss = CrossEntropyWithSoftmax classifierOutput labelsVar ''LossFunction'';
                    prediction = ClassificationError classifierOutput labelsVar ''ClassificationError''
                in Inr (Combine [trainingLoss, prediction, classifierOutput] ''ClassifierModel'')))"

text \<open>
  Lines 200 to 254. Everything after line 238 is commented out in the source: no thread
  is started and \<^verbatim>\<open>Forward\<close> is never called.
\<close>

definition EvalMultiThreadsWithClone :: "DeviceDescriptor \<Rightarrow> int \<Rightarrow> error + MainEvent list" where
  "EvalMultiThreadsWithClone device threadCount =
     (let numHiddenLayers = 6
      in case clone_network device of
           Inl e \<Rightarrow> Inl e
         | Inr ffNet \<Rightarrow>
             if length (Parameters ffNet) \<noteq> (numHiddenLayers * 2) + 1 then
               Inl (RuntimeError
                 ''TestFeedForwardNetworkCreation: Function does not have expected Parameter count'')
             else if length (Arguments ffNet) \<noteq> 2 then
               Inl (RuntimeError
                 ''TestFeedForwardNetworkCreation: Function does not have expected Argument count'')
             else if length (Outputs ffNet) \<noteq> 3 then
               Inl (RuntimeError
                 ''TestFeedForwardNetworkCreation: Function does not have expected Output count'')
             else
               let count = threadCount;
                   inputVariables = Arguments ffNet;
                   outputVariables = Outputs ffNet
               in Inr [Fprintf ''%d, %p, %p\<newline>''
                        [ArgInt count, ArgVariables inputVariables, ArgVariables outputVariables]])"

section \<open>The specification's reading of the assembler\<close>

text \<open>
  The spec's layer: \<open>nonlinearity(weight \<times> input + bias)\<close>, on the pair of a weight and a
  bias parameter.
\<close>

definition affine_layer :: "(Function \<Rightarrow> Function) \<Rightarrow> Function \<Rightarrow> Parameter \<times> Parameter \<Rightarrow> Function" where
  "affine_layer nonLinearity prev wb =
     nonLinearity (Plus_op (ParameterVariable (snd wb)) (Times_op (ParameterVariable (fst wb)) prev 1 []) [])"

text \<open>
  The spec's classifier: the input layer, then one layer for each of the first \<open>H - 1\<close>
  pairs of hidden parameters, then the product with the output weight and no nonlinearity.
\<close>

definition layered_classifier ::
  "Function \<Rightarrow> nat \<Rightarrow> Parameter \<Rightarrow> Parameter \<Rightarrow> Parameter list \<Rightarrow> Parameter list \<Rightarrow> Parameter
     \<Rightarrow> (Function \<Rightarrow> Function) \<Rightarrow> Function" where
  "layered_classifier x H Win bin Ws bs Wout nonLinearity =
     Times_op (ParameterVariable Wout)
       (foldl (affine_layer nonLinearity) (affine_layer nonLinearity x (Win, bin))
          (zip (take (H - 1) Ws) (take (H - 1) bs)))
       1 []"

text \<open>
  The assumptions the source leaves as comments (``assume that timesParam has matched
  outputDim and inputDim''): weights are matrices, biases are vectors, and the
  nonlinearity keeps the shape of its operand.
\<close>

definition elementwise :: "(Function \<Rightarrow> Function) \<Rightarrow> bool" where
  "elementwise nonLinearity \<longleftrightarrow> (\<forall>f. Shape (nonLinearity f) = Shape f)"

definition matrix_param :: "Parameter \<Rightarrow> bool" where
  "matrix_param W \<longleftrightarrow> Rank (pshape W) = 2"

definition vector_param :: "Parameter \<Rightarrow> bool" where
  "vector_param b \<longleftrightarrow> Rank (pshape b) = 1"

text \<open>The only error the layer builder can raise is its rank assertion.\<close>

definition rank_assertion_only :: "error + 'a \<Rightarrow> bool" where
  "rank_assertion_only r \<longleftrightarrow>
     (case r of Inl e \<Rightarrow> e = AssertionFailed ''input.Shape().Rank() == 1'' | Inr v \<Rightarrow> True)"


section \<open>Reading the main thread's events\<close>

text \<open>The arguments of the threads started, in order.\<close>

fun started_workers :: "MainEvent list \<Rightarrow> WorkerArgs list" where
  "started_workers [] = []"
| "started_workers (ThreadStart th a # es) = a # started_workers es"
| "started_workers (e # es) = started_workers es"

text \<open>The threads joined, the lines printed and the forward evaluations made, in order.\<close>

fun joined_threads :: "MainEvent list \<Rightarrow> int list" where
  "joined_threads [] = []"
| "joined_threads (ThreadJoin th # es) = th # joined_threads es"
| "joined_threads (e # es) = joined_threads es"

fun diagnostics :: "MainEvent list \<Rightarrow> (string \<times> fprintf_arg list) list" where
  "diagnostics [] = []"
| "diagnostics (Fprintf fmt args # es) = (fmt, args) # diagnostics es"
| "diagnostics (e # es) = diagnostics es"

fun forward_evaluations :: "MainEvent list \<Rightarrow> ForwardCall list" where
  "forward_evaluations [] = []"
| "forward_evaluations (ForwardEvaluation c # es) = c # forward_evaluations es"
| "forward_evaluations (e # es) = forward_evaluations es"


section \<open>A concrete generator\<close>

text \<open>
  The portable implementation printed in the C standard: one 32-bit word of state,
  \<^verbatim>\<open>next = next * 1103515245 + 12345; return (next / 65536) % 32768\<close>, and
  \<^verbatim>\<open>srand(seed)\<close> stores the seed.
\<close>

definition ansi_rand :: "nat CRand" where
  "ansi_rand =
     \<lparr>srand = (\<lambda>seed next. seed mod 4294967296),
      rand = (\<lambda>next. let n = (next * 1103515245 + 12345) mod 4294967296 in ((n div 65536) mod 32768, n)),
      RAND_MAX = 32767\<rparr>"

section \<open>Reading the driver's buffers and calls\<close>

text \<open>
  A label buffer is one-hot per sample: it has one row of \<open>numOutputClasses\<close> entries for
  each sample, and in every row exactly one entry is 1 and all the others are 0.
\<close>

definition one_hot_rows :: "rat list \<Rightarrow> nat \<Rightarrow> nat \<Rightarrow> bool" where
  "one_hot_rows labelData numOutputClasses numSamples \<longleftrightarrow>
     length labelData = numOutputClasses * numSamples \<and>
     (\<forall>i < numSamples. \<exists>j < numOutputClasses. \<forall>j' < numOutputClasses.
        labelData ! (i * numOutputClasses + j') = (if j' = j then 1 else 0))"

text \<open>Rows below \<open>k\<close> hold one 1, rows from \<open>k\<close> on are still zero.\<close>

definition labelled_up_to :: "rat list \<Rightarrow> nat \<Rightarrow> nat \<Rightarrow> nat \<Rightarrow> bool" where
  "labelled_up_to labelData C n k \<longleftrightarrow>
     length labelData = C * n \<and>
     (\<forall>i < k. \<exists>j < C. \<forall>j' < C. labelData ! (i * C + j') = (if j' = j then 1 else 0)) \<and>
     (\<forall>p. k * C \<le> p \<and> p < C * n \<longrightarrow> labelData ! p = 0)"


text \<open>The tensor view a forward call passes for a variable.\<close>

definition passed_view :: "ForwardCall \<Rightarrow> Function \<Rightarrow> NDArrayView option" where
  "passed_view c var = (case map_of (fw_arguments c) var of None \<Rightarrow> None | Some (Value v) \<Rightarrow> Some v)"

section \<open>Further generators\<close>






section \<open>A small worked input\<close>

text \<open>One input value, two output classes and a single layer of width four, on the CPU.\<close>

definition ex_inputTimesParam :: Parameter where
  "ex_inputTimesParam = Parameter 0 [4, 1] (RandomUniform (- (1 / 2)) (1 / 2) 1) CPUDevice"

definition ex_inputPlusParam :: Parameter where
  "ex_inputPlusParam = Parameter 1 [4] (ConstantValue 0) CPUDevice"

definition ex_outputTimesParam :: Parameter where
  "ex_outputTimesParam = Parameter 2 [2, 4] (RandomUniform (- (1 / 2)) (1 / 2) 1) CPUDevice"

definition ex_driver :: "'s CRand \<Rightarrow> 's \<Rightarrow> error + ForwardCall list \<times> 's" where
  "ex_driver g s =
     EvaluationNewNetworkWithSharedParameters g 1 2 1 ex_inputTimesParam ex_inputPlusParam [] []
       ex_outputTimesParam CPUDevice s"




section \<open>The concrete generators, step by step\<close>

lemma ansi_rand_simps:
  "srand ansi_rand seed next = seed mod 4294967296"
  "rand ansi_rand next = (((next * 1103515245 + 12345) mod 4294967296 div 65536) mod 32768,
                          (next * 1103515245 + 12345) mod 4294967296)"
  "RAND_MAX ansi_rand = 32767"
  by (simp_all add: ansi_rand_def Let_def)



section \<open>The assembler builds the layered classifier\<close>

lemma broadcast_rank1: "length xs = 1 \<Longrightarrow> length ys = 1 \<Longrightarrow> length (broadcast xs ys) = 1"
  by (cases xs; cases ys) auto

lemma affine_layer_rank:
  assumes "elementwise nl" "matrix_param W" "vector_param b" "Rank (Shape x) = 1"
  shows "Rank (Shape (affine_layer nl x (W, b))) = 1"
  using assms
  by (simp add: affine_layer_def elementwise_def matrix_param_def vector_param_def Rank_def broadcast_rank1)

lemma layer_builder_eq:
  "Rank (Shape x) = 1 \<Longrightarrow>
   FullyConnectedDNNLayerWithSharedParameters x W b nl = Inr (affine_layer nl x (W, b))"
  by (simp add: FullyConnectedDNNLayerWithSharedParameters_def affine_layer_def Let_def)

lemma hidden_layers_fold:
  assumes "elementwise nl" "Rank (Shape prev) = 1"
  shows "k \<le> length Ws \<Longrightarrow> k \<le> length bs \<Longrightarrow>
         (\<forall>W \<in> set (take k Ws). matrix_param W) \<Longrightarrow> (\<forall>b \<in> set (take k bs). vector_param b) \<Longrightarrow>
         fold (hidden_layer_step Ws bs nl) [1 ..< Suc k] (Inr prev)
           = Inr (foldl (affine_layer nl) prev (zip (take k Ws) (take k bs)))
         \<and> Rank (Shape (foldl (affine_layer nl) prev (zip (take k Ws) (take k bs)))) = 1"
proof (induction k)
  case 0
  then show ?case using assms by simp
next
  case (Suc k)
  have kW: "k < length Ws" and kb: "k < length bs" using Suc.prems by auto
  have tW: "take (Suc k) Ws = take k Ws @ [Ws ! k]" using kW by (simp add: take_Suc_conv_app_nth)
  have tb: "take (Suc k) bs = take k bs @ [bs ! k]" using kb by (simp add: take_Suc_conv_app_nth)
  have mW: "matrix_param (Ws ! k)" and vb: "vector_param (bs ! k)"
    using Suc.prems tW tb by auto
  have ih: "fold (hidden_layer_step Ws bs nl) [1 ..< Suc k] (Inr prev)
           = Inr (foldl (affine_layer nl) prev (zip (take k Ws) (take k bs)))"
    and rk: "Rank (Shape (foldl (affine_layer nl) prev (zip (take k Ws) (take k bs)))) = 1"
    using Suc.IH Suc.prems tW tb by auto
  have z: "zip (take (Suc k) Ws) (take (Suc k) bs) = zip (take k Ws) (take k bs) @ [(Ws ! k, bs ! k)]"
    using kW kb by (simp add: tW tb)
  have step: "fold (hidden_layer_step Ws bs nl) [1 ..< Suc (Suc k)] (Inr prev)
      = hidden_layer_step Ws bs nl (Suc k) (fold (hidden_layer_step Ws bs nl) [1 ..< Suc k] (Inr prev))"
    by simp
  show ?case
    unfolding step ih z
    using kW kb rk affine_layer_rank [OF assms(1) mW vb rk]
    by (simp add: hidden_layer_step_def array_at_def layer_builder_eq)
qed

lemma assembler_layered:
  assumes "Rank (Shape x) = 1" and "1 \<le> H" and "H - 1 \<le> length Ws" and "H - 1 \<le> length bs"
    and "elementwise nl"
    and "\<forall>W \<in> set (Win # take (H - 1) Ws). matrix_param W"
    and "\<forall>b \<in> set (bin # take (H - 1) bs). vector_param b"
  shows "FullyConnectedFeedForwardClassifierNetWithSharedParameters x H Win bin Ws bs Wout nl
           = Inr (layered_classifier x H Win bin Ws bs Wout nl)"
proof -
  have r0: "Rank (Shape (affine_layer nl x (Win, bin))) = 1"
    using assms by (intro affine_layer_rank) auto
  have hs: "[1 ..< H] = [1 ..< Suc (H - 1)]" using assms(2) by simp
  have f: "fold (hidden_layer_step Ws bs nl) [1 ..< H] (Inr (affine_layer nl x (Win, bin)))
           = Inr (foldl (affine_layer nl) (affine_layer nl x (Win, bin)) (zip (take (H - 1) Ws) (take (H - 1) bs)))"
    unfolding hs using hidden_layers_fold [OF assms(5) r0, of "H - 1" Ws bs] assms by auto
  show ?thesis
    using assms(1,2) f
    by (simp add: FullyConnectedFeedForwardClassifierNetWithSharedParameters_def layer_builder_eq
          layered_classifier_def)
qed

text \<open>
  Claim C2. For a rank-1 input \<open>x\<close> and \<open>H \<ge> 1\<close> hidden layers, with at least \<open>H - 1\<close>
  hidden weight matrices and bias vectors and an elementwise nonlinearity, the layer builder
  returns \<open>nonlinearity(W\<^sub>i\<^sub>n \<times> x + b\<^sub>i\<^sub>n)\<close> and the assembler returns the input layer, followed
  by exactly \<open>H - 1\<close> layers \<open>nonlinearity(W\<^sub>i \<times> prev + b\<^sub>i)\<close>, followed by the product with the
  output weight, to which no nonlinearity is applied. Both are values of the inputs alone.
\<close>

theorem classifier_is_layered:
  assumes "Rank (Shape x) = 1" and "1 \<le> H" and "H - 1 \<le> length Ws" and "H - 1 \<le> length bs"
    and "elementwise nl"
    and "\<forall>W \<in> set (Win # take (H - 1) Ws). matrix_param W"
    and "\<forall>b \<in> set (bin # take (H - 1) bs). vector_param b"
  shows "FullyConnectedDNNLayerWithSharedParameters x Win bin nl
           = Inr (nl (Plus_op (ParameterVariable bin) (Times_op (ParameterVariable Win) x 1 []) []))
       \<and> FullyConnectedFeedForwardClassifierNetWithSharedParameters x H Win bin Ws bs Wout nl
           = Inr (Times_op (ParameterVariable Wout)
                   (foldl (\<lambda>prev (W, b). nl (Plus_op (ParameterVariable b) (Times_op (ParameterVariable W) prev 1 []) []))
                      (nl (Plus_op (ParameterVariable bin) (Times_op (ParameterVariable Win) x 1 []) []))
                      (zip (take (H - 1) Ws) (take (H - 1) bs)))
                   1 [])
       \<and> length (zip (take (H - 1) Ws) (take (H - 1) bs)) = H - 1"
proof -
  have fn: "affine_layer nl = (\<lambda>prev (W, b). nl (Plus_op (ParameterVariable b) (Times_op (ParameterVariable W) prev 1 []) []))"
    by (auto simp: affine_layer_def fun_eq_iff)
  have "FullyConnectedFeedForwardClassifierNetWithSharedParameters x H Win bin Ws bs Wout nl
           = Inr (layered_classifier x H Win bin Ws bs Wout nl)"
    using assms by (rule assembler_layered)
  moreover have "layered_classifier x H Win bin Ws bs Wout nl
      = Times_op (ParameterVariable Wout)
                   (foldl (\<lambda>prev (W, b). nl (Plus_op (ParameterVariable b) (Times_op (ParameterVariable W) prev 1 []) []))
                      (nl (Plus_op (ParameterVariable bin) (Times_op (ParameterVariable Win) x 1 []) []))
                      (zip (take (H - 1) Ws) (take (H - 1) bs)))
                   1 []"
    unfolding layered_classifier_def fn by (simp add: affine_layer_def)
  ultimately show ?thesis
    using assms(1,3,4) by (simp add: layer_builder_eq affine_layer_def)
qed

theorem classifier_is_layered_witness:
  "FullyConnectedFeedForwardClassifierNetWithSharedParameters (InputVariable [3] Float ''Features'') 2
      (Parameter 0 [4, 3] (ConstantValue 0) CPUDevice) (Parameter 1 [4] (ConstantValue 0) CPUDevice)
      [Parameter 2 [4, 4] (ConstantValue 0) CPUDevice] [Parameter 3 [4] (ConstantValue 0) CPUDevice]
      (Parameter 4 [2, 4] (ConstantValue 0) CPUDevice) (\<lambda>f. Sigmoid f [])
    = Inr (Times_op (ParameterVariable (Parameter 4 [2, 4] (ConstantValue 0) CPUDevice))
            (Sigmoid (Plus_op (ParameterVariable (Parameter 3 [4] (ConstantValue 0) CPUDevice))
               (Times_op (ParameterVariable (Parameter 2 [4, 4] (ConstantValue 0) CPUDevice))
                 (Sigmoid (Plus_op (ParameterVariable (Parameter 1 [4] (ConstantValue 0) CPUDevice))
                    (Times_op (ParameterVariable (Parameter 0 [4, 3] (ConstantValue 0) CPUDevice))
                       (InputVariable [3] Float ''Features'') 1 []) []) [])
                 1 []) []) [])
            1 [])"
  using classifier_is_layered [where x = "InputVariable [3] Float ''Features''" and H = 2
      and Ws = "[Parameter 2 [4, 4] (ConstantValue 0) CPUDevice]"
      and bs = "[Parameter 3 [4] (ConstantValue 0) CPUDevice]"
      and nl = "\<lambda>f. Sigmoid f []"
      and Win = "Parameter 0 [4, 3] (ConstantValue 0) CPUDevice"
      and bin = "Parameter 1 [4] (ConstantValue 0) CPUDevice"
      and Wout = "Parameter 4 [2, 4] (ConstantValue 0) CPUDevice"]
  by (simp add: Rank_def elementwise_def matrix_param_def vector_param_def)

section \<open>The assembler reads the hidden parameter arrays inside their bounds\<close>

lemma array_at_take: "j < n \<Longrightarrow> array_at (take n xs) j = array_at xs j"
  by (simp add: array_at_def)

lemma array_at_agree:
  assumes "take n xs = take n ys" and "j < n"
  shows "array_at xs j = array_at ys j"
  using array_at_take [OF assms(2), of xs] array_at_take [OF assms(2), of ys] assms(1) by simp

lemma hidden_layer_step_agree:
  assumes "take n Ws' = take n Ws" and "take n bs' = take n bs" and "i - 1 < n"
  shows "hidden_layer_step Ws' bs' nl i acc = hidden_layer_step Ws bs nl i acc"
  unfolding hidden_layer_step_def
  using array_at_agree [OF assms(1) assms(3)] array_at_agree [OF assms(2) assms(3)]
  by (simp only:)

lemma fold_hidden_agree:
  assumes "take n Ws' = take n Ws" and "take n bs' = take n bs"
  shows "(\<forall>i \<in> set js. i - 1 < n) \<Longrightarrow>
         fold (hidden_layer_step Ws' bs' nl) js acc = fold (hidden_layer_step Ws bs nl) js acc"
proof (induction js arbitrary: acc)
  case Nil
  then show ?case by simp
next
  case (Cons j js)
  then show ?case using hidden_layer_step_agree [OF assms, of j nl acc] by simp
qed

lemma assembler_reads_prefix:
  assumes "take (H - 1) Ws' = take (H - 1) Ws" and "take (H - 1) bs' = take (H - 1) bs"
  shows "FullyConnectedFeedForwardClassifierNetWithSharedParameters x H Win bin Ws' bs' Wout nl
       = FullyConnectedFeedForwardClassifierNetWithSharedParameters x H Win bin Ws bs Wout nl"
proof -
  have "\<forall>i \<in> set [1 ..< H]. i - 1 < H - 1" by auto
  from fold_hidden_agree [OF assms this] show ?thesis
    by (simp add: FullyConnectedFeedForwardClassifierNetWithSharedParameters_def)
qed

lemma layer_builder_errors:
  "rank_assertion_only (FullyConnectedDNNLayerWithSharedParameters x W b nl)"
  by (simp add: FullyConnectedDNNLayerWithSharedParameters_def Let_def rank_assertion_only_def)

lemma hidden_layer_step_errors:
  assumes "i - 1 < length Ws" and "i - 1 < length bs" and "rank_assertion_only acc"
  shows "rank_assertion_only (hidden_layer_step Ws bs nl i acc)"
proof (cases acc)
  case (Inl e)
  then show ?thesis using assms(3) by (simp add: hidden_layer_step_def)
next
  case (Inr prev)
  then show ?thesis
    using assms(1,2) layer_builder_errors [of prev "Ws ! (i - 1)" "bs ! (i - 1)" nl]
    by (simp add: hidden_layer_step_def array_at_def)
qed

lemma fold_hidden_errors:
  "(\<forall>i \<in> set js. i - 1 < length Ws \<and> i - 1 < length bs) \<Longrightarrow> rank_assertion_only acc \<Longrightarrow>
   rank_assertion_only (fold (hidden_layer_step Ws bs nl) js acc)"
proof (induction js arbitrary: acc)
  case Nil
  then show ?case by simp
next
  case (Cons j js)
  then show ?case using hidden_layer_step_errors [of j Ws bs acc nl] by simp
qed

lemma assembler_errors:
  assumes "1 \<le> H" and "H - 1 \<le> length Ws" and "H - 1 \<le> length bs"
  shows "rank_assertion_only
           (FullyConnectedFeedForwardClassifierNetWithSharedParameters x H Win bin Ws bs Wout nl)"
proof -
  have "\<forall>i \<in> set [1 ..< H]. i - 1 < length Ws \<and> i - 1 < length bs" using assms by auto
  from fold_hidden_errors [OF this layer_builder_errors [of x Win bin nl], of nl]
  show ?thesis
    using assms(1)
    by (auto simp: FullyConnectedFeedForwardClassifierNetWithSharedParameters_def
          rank_assertion_only_def split: sum.splits)
qed

lemma started_workers_append:
  "started_workers (xs @ ys) = started_workers xs @ started_workers ys"
  by (induction xs rule: started_workers.induct) auto

lemma started_workers_spawn:
  "started_workers (fold (spawn_step a) [0 ..< n] []) = replicate n a"
  by (induction n) (auto simp: spawn_step_def started_workers_append replicate_append_same)

lemma started_workers_join:
  "started_workers (fold join_step [0 ..< n] evs) = started_workers evs"
  by (induction n) (auto simp: join_step_def started_workers_append)

lemma fan_out_started_workers:
  "EvalMultiThreadsWithNewNetwork device threadCount = Inr evs \<Longrightarrow>
   started_workers evs = replicate (nat threadCount) (shared_parameters device)"
  by (auto simp: EvalMultiThreadsWithNewNetwork_def Let_def started_workers_join started_workers_spawn
      split: if_splits)


text \<open>
  Claim C8. With \<open>H \<ge> 1\<close> and hidden weight and bias arrays of length \<open>H - 1\<close>, the assembler
  never reads outside an array and its assertion \<open>numHiddenLayers >= 1\<close> does not fail; the
  result is the same for any arrays that agree with these at the indices \<open>0\<close> to \<open>H - 2\<close>,
  so no other index is read. Every worker the fan-out starts is given \<open>numHiddenLayers \<ge> 1\<close>
  and arrays of length \<open>numHiddenLayers - 1\<close>.
\<close>

theorem hidden_parameter_reads_in_bounds:
  "(1 \<le> H \<and> length Ws = H - 1 \<and> length bs = H - 1 \<longrightarrow>
      FullyConnectedFeedForwardClassifierNetWithSharedParameters x H Win bin Ws bs Wout nl \<noteq> Inl IndexOutOfRange
    \<and> FullyConnectedFeedForwardClassifierNetWithSharedParameters x H Win bin Ws bs Wout nl
        \<noteq> Inl (AssertionFailed ''numHiddenLayers >= 1'')
    \<and> (\<forall>Ws' bs'. take (H - 1) Ws' = Ws \<and> take (H - 1) bs' = bs \<longrightarrow>
          FullyConnectedFeedForwardClassifierNetWithSharedParameters x H Win bin Ws' bs' Wout nl
        = FullyConnectedFeedForwardClassifierNetWithSharedParameters x H Win bin Ws bs Wout nl))
   \<and> (\<forall>evs. EvalMultiThreadsWithNewNetwork device threadCount = Inr evs \<longrightarrow>
        (\<forall>a \<in> set (started_workers evs).
           1 \<le> w_numHiddenLayers a
         \<and> length (w_hiddenLayerTimesParam a) = w_numHiddenLayers a - 1
         \<and> length (w_hiddenLayerPlusParam a) = w_numHiddenLayers a - 1))"
proof (intro conjI impI allI)
  assume h: "1 \<le> H \<and> length Ws = H - 1 \<and> length bs = H - 1"
  have r: "rank_assertion_only
       (FullyConnectedFeedForwardClassifierNetWithSharedParameters x H Win bin Ws bs Wout nl)"
    using h by (intro assembler_errors) auto
  show "FullyConnectedFeedForwardClassifierNetWithSharedParameters x H Win bin Ws bs Wout nl \<noteq> Inl IndexOutOfRange"
    using r by (auto simp: rank_assertion_only_def)
  show "FullyConnectedFeedForwardClassifierNetWithSharedParameters x H Win bin Ws bs Wout nl
        \<noteq> Inl (AssertionFailed ''numHiddenLayers >= 1'')"
    using r by (auto simp: rank_assertion_only_def)
next
  fix Ws' bs'
  assume h: "1 \<le> H \<and> length Ws = H - 1 \<and> length bs = H - 1"
    and t: "take (H - 1) Ws' = Ws \<and> take (H - 1) bs' = bs"
  show "FullyConnectedFeedForwardClassifierNetWithSharedParameters x H Win bin Ws' bs' Wout nl
        = FullyConnectedFeedForwardClassifierNetWithSharedParameters x H Win bin Ws bs Wout nl"
    using h t by (intro assembler_reads_prefix) auto
next
  fix evs
  assume "EvalMultiThreadsWithNewNetwork device threadCount = Inr evs"
  from fan_out_started_workers [OF this]
  show "\<forall>a \<in> set (started_workers evs).
           1 \<le> w_numHiddenLayers a
         \<and> length (w_hiddenLayerTimesParam a) = w_numHiddenLayers a - 1
         \<and> length (w_hiddenLayerPlusParam a) = w_numHiddenLayers a - 1"
    by (simp add: shared_parameters_def Let_def)
qed


theorem hidden_parameter_reads_in_bounds_witness:
  "FullyConnectedFeedForwardClassifierNetWithSharedParameters (InputVariable [3] Float ''Features'') 2
      (Parameter 0 [4, 3] (ConstantValue 0) CPUDevice) (Parameter 1 [4] (ConstantValue 0) CPUDevice)
      [Parameter 2 [4, 4] (ConstantValue 0) CPUDevice] [Parameter 3 [4] (ConstantValue 0) CPUDevice]
      (Parameter 4 [2, 4] (ConstantValue 0) CPUDevice) (\<lambda>f. Sigmoid f []) \<noteq> Inl IndexOutOfRange
   \<and> FullyConnectedFeedForwardClassifierNetWithSharedParameters (InputVariable [3] Float ''Features'') 2
      (Parameter 0 [4, 3] (ConstantValue 0) CPUDevice) (Parameter 1 [4] (ConstantValue 0) CPUDevice)
      [Parameter 2 [4, 4] (ConstantValue 0) CPUDevice, Parameter 5 [7] (ConstantValue 1) CPUDevice]
      [Parameter 3 [4] (ConstantValue 0) CPUDevice, Parameter 6 [] (ConstantValue 1) CPUDevice]
      (Parameter 4 [2, 4] (ConstantValue 0) CPUDevice) (\<lambda>f. Sigmoid f [])
    = FullyConnectedFeedForwardClassifierNetWithSharedParameters (InputVariable [3] Float ''Features'') 2
      (Parameter 0 [4, 3] (ConstantValue 0) CPUDevice) (Parameter 1 [4] (ConstantValue 0) CPUDevice)
      [Parameter 2 [4, 4] (ConstantValue 0) CPUDevice] [Parameter 3 [4] (ConstantValue 0) CPUDevice]
      (Parameter 4 [2, 4] (ConstantValue 0) CPUDevice) (\<lambda>f. Sigmoid f [])
   \<and> (\<exists>evs. EvalMultiThreadsWithNewNetwork CPUDevice 2 = Inr evs
        \<and> length (started_workers evs) = 2
        \<and> list_all (\<lambda>a. w_numHiddenLayers a = 6 \<and> length (w_hiddenLayerTimesParam a) = 5
                        \<and> length (w_hiddenLayerPlusParam a) = 5) (started_workers evs))"
proof -
  note t = hidden_parameter_reads_in_bounds [where H = 2
      and x = "InputVariable [3] Float ''Features''"
      and Ws = "[Parameter 2 [4, 4] (ConstantValue 0) CPUDevice]"
      and bs = "[Parameter 3 [4] (ConstantValue 0) CPUDevice]"
      and nl = "\<lambda>f. Sigmoid f []"
      and Win = "Parameter 0 [4, 3] (ConstantValue 0) CPUDevice"
      and bin = "Parameter 1 [4] (ConstantValue 0) CPUDevice"
      and Wout = "Parameter 4 [2, 4] (ConstantValue 0) CPUDevice"
      and device = CPUDevice and threadCount = 2]
  have t1: "FullyConnectedFeedForwardClassifierNetWithSharedParameters (InputVariable [3] Float ''Features'') 2
      (Parameter 0 [4, 3] (ConstantValue 0) CPUDevice) (Parameter 1 [4] (ConstantValue 0) CPUDevice)
      [Parameter 2 [4, 4] (ConstantValue 0) CPUDevice] [Parameter 3 [4] (ConstantValue 0) CPUDevice]
      (Parameter 4 [2, 4] (ConstantValue 0) CPUDevice) (\<lambda>f. Sigmoid f []) \<noteq> Inl IndexOutOfRange
    \<and> FullyConnectedFeedForwardClassifierNetWithSharedParameters (InputVariable [3] Float ''Features'') 2
      (Parameter 0 [4, 3] (ConstantValue 0) CPUDevice) (Parameter 1 [4] (ConstantValue 0) CPUDevice)
      [Parameter 2 [4, 4] (ConstantValue 0) CPUDevice] [Parameter 3 [4] (ConstantValue 0) CPUDevice]
      (Parameter 4 [2, 4] (ConstantValue 0) CPUDevice) (\<lambda>f. Sigmoid f [])
        \<noteq> Inl (AssertionFailed ''numHiddenLayers >= 1'')
    \<and> (\<forall>Ws' bs'. take (2 - 1) Ws' = [Parameter 2 [4, 4] (ConstantValue 0) CPUDevice]
          \<and> take (2 - 1) bs' = [Parameter 3 [4] (ConstantValue 0) CPUDevice] \<longrightarrow>
      FullyConnectedFeedForwardClassifierNetWithSharedParameters (InputVariable [3] Float ''Features'') 2
        (Parameter 0 [4, 3] (ConstantValue 0) CPUDevice) (Parameter 1 [4] (ConstantValue 0) CPUDevice)
        Ws' bs' (Parameter 4 [2, 4] (ConstantValue 0) CPUDevice) (\<lambda>f. Sigmoid f [])
    = FullyConnectedFeedForwardClassifierNetWithSharedParameters (InputVariable [3] Float ''Features'') 2
        (Parameter 0 [4, 3] (ConstantValue 0) CPUDevice) (Parameter 1 [4] (ConstantValue 0) CPUDevice)
        [Parameter 2 [4, 4] (ConstantValue 0) CPUDevice] [Parameter 3 [4] (ConstantValue 0) CPUDevice]
        (Parameter 4 [2, 4] (ConstantValue 0) CPUDevice) (\<lambda>f. Sigmoid f []))"
    by (rule t [THEN conjunct1, THEN mp]) simp
  have a: "FullyConnectedFeedForwardClassifierNetWithSharedParameters (InputVariable [3] Float ''Features'') 2
      (Parameter 0 [4, 3] (ConstantValue 0) CPUDevice) (Parameter 1 [4] (ConstantValue 0) CPUDevice)
      [Parameter 2 [4, 4] (ConstantValue 0) CPUDevice] [Parameter 3 [4] (ConstantValue 0) CPUDevice]
      (Parameter 4 [2, 4] (ConstantValue 0) CPUDevice) (\<lambda>f. Sigmoid f []) \<noteq> Inl IndexOutOfRange"
    using t1 by (rule conjunct1)
  have "\<forall>Ws' bs'. take (2 - 1) Ws' = [Parameter 2 [4, 4] (ConstantValue 0) CPUDevice]
          \<and> take (2 - 1) bs' = [Parameter 3 [4] (ConstantValue 0) CPUDevice] \<longrightarrow>
      FullyConnectedFeedForwardClassifierNetWithSharedParameters (InputVariable [3] Float ''Features'') 2
        (Parameter 0 [4, 3] (ConstantValue 0) CPUDevice) (Parameter 1 [4] (ConstantValue 0) CPUDevice)
        Ws' bs' (Parameter 4 [2, 4] (ConstantValue 0) CPUDevice) (\<lambda>f. Sigmoid f [])
    = FullyConnectedFeedForwardClassifierNetWithSharedParameters (InputVariable [3] Float ''Features'') 2
        (Parameter 0 [4, 3] (ConstantValue 0) CPUDevice) (Parameter 1 [4] (ConstantValue 0) CPUDevice)
        [Parameter 2 [4, 4] (ConstantValue 0) CPUDevice] [Parameter 3 [4] (ConstantValue 0) CPUDevice]
        (Parameter 4 [2, 4] (ConstantValue 0) CPUDevice) (\<lambda>f. Sigmoid f [])"
    using t1 by (elim conjE)
  then have b: "FullyConnectedFeedForwardClassifierNetWithSharedParameters (InputVariable [3] Float ''Features'') 2
      (Parameter 0 [4, 3] (ConstantValue 0) CPUDevice) (Parameter 1 [4] (ConstantValue 0) CPUDevice)
      [Parameter 2 [4, 4] (ConstantValue 0) CPUDevice, Parameter 5 [7] (ConstantValue 1) CPUDevice]
      [Parameter 3 [4] (ConstantValue 0) CPUDevice, Parameter 6 [] (ConstantValue 1) CPUDevice]
      (Parameter 4 [2, 4] (ConstantValue 0) CPUDevice) (\<lambda>f. Sigmoid f [])
    = FullyConnectedFeedForwardClassifierNetWithSharedParameters (InputVariable [3] Float ''Features'') 2
      (Parameter 0 [4, 3] (ConstantValue 0) CPUDevice) (Parameter 1 [4] (ConstantValue 0) CPUDevice)
      [Parameter 2 [4, 4] (ConstantValue 0) CPUDevice] [Parameter 3 [4] (ConstantValue 0) CPUDevice]
      (Parameter 4 [2, 4] (ConstantValue 0) CPUDevice) (\<lambda>f. Sigmoid f [])"
    apply -
    apply (drule spec [where x = "[Parameter 2 [4, 4] (ConstantValue 0) CPUDevice, Parameter 5 [7] (ConstantValue 1) CPUDevice]"])
    apply (drule spec [where x = "[Parameter 3 [4] (ConstantValue 0) CPUDevice, Parameter 6 [] (ConstantValue 1) CPUDevice]"])
    apply simp
    done
  obtain evs where e: "EvalMultiThreadsWithNewNetwork CPUDevice 2 = Inr evs"
    by (simp add: EvalMultiThreadsWithNewNetwork_def Let_def)
  have s: "started_workers evs = replicate 2 (shared_parameters CPUDevice)"
    using fan_out_started_workers [OF e] by simp
  have c: "list_all (\<lambda>a. w_numHiddenLayers a = 6 \<and> length (w_hiddenLayerTimesParam a) = 5
                        \<and> length (w_hiddenLayerPlusParam a) = 5) (started_workers evs)"
    unfolding s by (simp add: list_all_iff shared_parameters_def Let_def)
  show ?thesis using a b e s c by simp
qed

section \<open>Structural validation of the assembled graph\<close>

lemma sigmoid_elementwise: "elementwise (\<lambda>x. Sigmoid x [])"
  by (simp add: elementwise_def)

lemma chain_parameter_leaves:
  "set (parameter_leaves (foldl (affine_layer (\<lambda>x. Sigmoid x [])) prev wbs))
     = set (parameter_leaves prev) \<union> set (map fst wbs) \<union> set (map snd wbs)"
  by (induction wbs arbitrary: prev) (auto simp: affine_layer_def)

lemma chain_input_leaves:
  "input_leaves (foldl (affine_layer (\<lambda>x. Sigmoid x [])) prev wbs) = input_leaves prev"
  by (induction wbs arbitrary: prev) (auto simp: affine_layer_def)

lemma classifier_parameter_leaves:
  assumes "H - 1 \<le> length Ws" and "H - 1 \<le> length bs"
  shows "set (parameter_leaves (layered_classifier x H Win bin Ws bs Wout (\<lambda>x. Sigmoid x [])))
       = set (parameter_leaves x) \<union> set (Win # bin # Wout # take (H - 1) Ws @ take (H - 1) bs)"
proof -
  define tW where "tW = take (H - 1) Ws"
  define tb where "tb = take (H - 1) bs"
  have l: "length tW = length tb" using assms by (simp add: tW_def tb_def)
  have "set (map fst (zip tW tb)) = set tW" and "set (map snd (zip tW tb)) = set tb"
    by (simp_all only: map_fst_zip [OF l] map_snd_zip [OF l])
  then have fs: "fst ` set (zip tW tb) = set tW" and ss: "snd ` set (zip tW tb) = set tb"
    by simp_all
  show ?thesis
    unfolding layered_classifier_def tW_def [symmetric] tb_def [symmetric]
    by (auto simp: chain_parameter_leaves affine_layer_def fs ss)
qed

lemma classifier_input_leaves:
  "input_leaves (layered_classifier x H Win bin Ws bs Wout (\<lambda>x. Sigmoid x [])) = input_leaves x"
  by (simp add: layered_classifier_def chain_input_leaves affine_layer_def)

lemma classifier_outputs:
  "Outputs (layered_classifier x H Win bin Ws bs Wout nl) = [layered_classifier x H Win bin Ws bs Wout nl]"
  by (simp add: layered_classifier_def)

lemma create_network_layered:
  assumes "1 \<le> H" and "H - 1 \<le> length Ws" and "H - 1 \<le> length bs"
    and "\<forall>W \<in> set (Win # take (H - 1) Ws). matrix_param W"
    and "\<forall>b \<in> set (bin # take (H - 1) bs). vector_param b"
  shows "create_network inputDim numOutputClasses H Win bin Ws bs Wout =
     (let x = InputVariable [inputDim] Float ''Features'';
          out = layered_classifier x H Win bin Ws bs Wout (\<lambda>x. Sigmoid x []);
          lab = InputVariable [numOutputClasses] Float ''Labels''
      in Inr \<lparr>cm_inputVar = x, cm_labelsVar = lab, cm_classifierOutputFunction = out,
              cm_trainingLossFunction = CrossEntropyWithSoftmax out lab ''LossFunction'',
              cm_predictionFunction = ClassificationError out lab ''ClassificationError'',
              cm_ffNet = Combine [CrossEntropyWithSoftmax out lab ''LossFunction'',
                                  ClassificationError out lab ''ClassificationError'', out]
                           ''ClassifierModel''\<rparr>)"
proof -
  have "Rank (Shape (InputVariable [inputDim] Float ''Features'')) = 1" by (simp add: Rank_def)
  from assembler_layered [OF this assms(1,2,3) sigmoid_elementwise assms(4,5)]
  show ?thesis by (simp add: create_network_def Let_def)
qed

lemma network_counts:
  fixes inputDim numOutputClasses H :: nat and Win bin Wout :: Parameter and Ws bs :: "Parameter list"
  assumes "1 \<le> H" and "H - 1 \<le> length Ws" and "H - 1 \<le> length bs"
  defines "x \<equiv> InputVariable [inputDim] Float ''Features''"
  defines "lab \<equiv> InputVariable [numOutputClasses] Float ''Labels''"
  defines "out \<equiv> layered_classifier x H Win bin Ws bs Wout (\<lambda>x. Sigmoid x [])"
  defines "net \<equiv> Combine [CrossEntropyWithSoftmax out lab ''LossFunction'',
                                  ClassificationError out lab ''ClassificationError'', out]
                           ''ClassifierModel''"
  defines "ps \<equiv> Win # bin # Wout # take (H - 1) Ws @ take (H - 1) bs"
  shows "length (Arguments net) = 2" and "length (Outputs net) = 3"
    and "length (Parameters net) = card (set ps)" and "length ps = 2 * H + 1"
    and "length (Parameters net) = 2 * H + 1 \<longleftrightarrow> distinct ps"
proof -
  show "length (Arguments net) = 2"
    by (simp add: net_def Arguments_def out_def classifier_input_leaves x_def lab_def)
  show "length (Outputs net) = 3"
    by (simp add: net_def out_def classifier_outputs)
  have "set (parameter_leaves net) = set ps"
    using classifier_parameter_leaves [OF assms(2,3), of x Win bin Wout]
    by (auto simp: net_def out_def ps_def x_def lab_def)
  then show c: "length (Parameters net) = card (set ps)"
    by (simp add: Parameters_def length_remdups_card_conv)
  show l: "length ps = 2 * H + 1" using assms(1,2,3) by (simp add: ps_def)
  show "length (Parameters net) = 2 * H + 1 \<longleftrightarrow> distinct ps"
    unfolding c using l card_distinct [of ps] distinct_card [of ps] by auto
qed

lemma check_structure_cases:
  "(length (Parameters f) \<noteq> 2 * K + 1 \<longrightarrow> check_structure f K = Inl (RuntimeError
      ''EvaluationNewNetworkWithSharedParameters: Function does not have expected Parameter count''))
 \<and> (length (Parameters f) = 2 * K + 1 \<and> length (Arguments f) \<noteq> 2 \<longrightarrow> check_structure f K = Inl (RuntimeError
      ''EvaluationNewNetworkWithSharedParameters: Function does not have expected Argument count''))
 \<and> (length (Parameters f) = 2 * K + 1 \<and> length (Arguments f) = 2 \<and> length (Outputs f) \<noteq> 3 \<longrightarrow>
      check_structure f K = Inl (RuntimeError
      ''EvaluationNewNetworkWithSharedParameters: Function does not have expected Output count''))
 \<and> (length (Parameters f) = 2 * K + 1 \<and> length (Arguments f) = 2 \<and> length (Outputs f) = 3 \<longrightarrow>
      check_structure f K = Inr ())"
  by (simp add: check_structure_def mult.commute)

lemma driver_raises_check_error:
  "create_network inputDim numOutputClasses H Win bin Ws bs Wout = Inr m \<Longrightarrow>
   check_structure (cm_ffNet m) H = Inl e \<Longrightarrow>
   EvaluationNewNetworkWithSharedParameters g inputDim numOutputClasses H Win bin Ws bs Wout device s = Inl e"
  by (simp add: EvaluationNewNetworkWithSharedParameters_def)


text \<open>
  Claim C1. For \<open>H \<ge> 1\<close> hidden layers (weights matrices, biases vectors, at least \<open>H - 1\<close>
  of each in the arrays) the driver assembles a graph that reports exactly 2 arguments and
  exactly 3 outputs, and exactly \<open>2 * H + 1\<close> parameters when the \<open>2 * H + 1\<close> parameter
  tensors it was given are distinct objects; the structural checks then pass. When a count
  differs from its expected value the check returns the runtime error with the message for
  that count, and the driver returns that error: no forward call is made.
\<close>

theorem structural_validation:
  assumes "1 \<le> H" and "H - 1 \<le> length Ws" and "H - 1 \<le> length bs"
    and "\<forall>W \<in> set (Win # take (H - 1) Ws). matrix_param W"
    and "\<forall>b \<in> set (bin # take (H - 1) bs). vector_param b"
  shows "(\<exists>m. create_network inputDim numOutputClasses H Win bin Ws bs Wout = Inr m
            \<and> length (Arguments (cm_ffNet m)) = 2
            \<and> length (Outputs (cm_ffNet m)) = 3
            \<and> (distinct (Win # bin # Wout # take (H - 1) Ws @ take (H - 1) bs) \<longrightarrow>
                  length (Parameters (cm_ffNet m)) = 2 * H + 1
                \<and> check_structure (cm_ffNet m) H = Inr ())
            \<and> (\<not> distinct (Win # bin # Wout # take (H - 1) Ws @ take (H - 1) bs) \<longrightarrow>
                  length (Parameters (cm_ffNet m)) \<noteq> 2 * H + 1
                \<and> EvaluationNewNetworkWithSharedParameters g inputDim numOutputClasses H Win bin Ws bs
                      Wout device s
                    = Inl (RuntimeError
                        ''EvaluationNewNetworkWithSharedParameters: Function does not have expected Parameter count'')))
       \<and> (\<forall>f K.
             (length (Parameters f) \<noteq> 2 * K + 1 \<longrightarrow> check_structure f K = Inl (RuntimeError
                ''EvaluationNewNetworkWithSharedParameters: Function does not have expected Parameter count''))
           \<and> (length (Parameters f) = 2 * K + 1 \<and> length (Arguments f) \<noteq> 2 \<longrightarrow>
                check_structure f K = Inl (RuntimeError
                ''EvaluationNewNetworkWithSharedParameters: Function does not have expected Argument count''))
           \<and> (length (Parameters f) = 2 * K + 1 \<and> length (Arguments f) = 2 \<and> length (Outputs f) \<noteq> 3 \<longrightarrow>
                check_structure f K = Inl (RuntimeError
                ''EvaluationNewNetworkWithSharedParameters: Function does not have expected Output count''))
           \<and> (length (Parameters f) = 2 * K + 1 \<and> length (Arguments f) = 2 \<and> length (Outputs f) = 3 \<longrightarrow>
                check_structure f K = Inr ()))
       \<and> (\<forall>m e. create_network inputDim numOutputClasses H Win bin Ws bs Wout = Inr m
                 \<and> check_structure (cm_ffNet m) H = Inl e \<longrightarrow>
             EvaluationNewNetworkWithSharedParameters g inputDim numOutputClasses H Win bin Ws bs Wout
                 device s = Inl e)"
proof (intro conjI)
  define x where "x = InputVariable [inputDim] Float ''Features''"
  define lab where "lab = InputVariable [numOutputClasses] Float ''Labels''"
  define out where "out = layered_classifier x H Win bin Ws bs Wout (\<lambda>x. Sigmoid x [])"
  define net where "net = Combine [CrossEntropyWithSoftmax out lab ''LossFunction'',
      ClassificationError out lab ''ClassificationError'', out] ''ClassifierModel''"
  define m where "m = \<lparr>cm_inputVar = x, cm_labelsVar = lab, cm_classifierOutputFunction = out,
      cm_trainingLossFunction = CrossEntropyWithSoftmax out lab ''LossFunction'',
      cm_predictionFunction = ClassificationError out lab ''ClassificationError'', cm_ffNet = net\<rparr>"
  let ?ps = "Win # bin # Wout # take (H - 1) Ws @ take (H - 1) bs"
  have cn: "create_network inputDim numOutputClasses H Win bin Ws bs Wout = Inr m"
    using create_network_layered [OF assms, where inputDim = inputDim and numOutputClasses = numOutputClasses
      and Wout = Wout]
    by (simp add: Let_def m_def net_def out_def lab_def x_def)
  have ff: "cm_ffNet m = net" by (simp add: m_def)
  have a: "length (Arguments net) = 2"
    using network_counts(1) [OF assms(1,2,3), where inputDim = inputDim
        and numOutputClasses = numOutputClasses and Win = Win and bin = bin and Wout = Wout]
    by (simp add: net_def out_def lab_def x_def)
  have o: "length (Outputs net) = 3"
    using network_counts(2) [OF assms(1,2,3), where inputDim = inputDim
        and numOutputClasses = numOutputClasses and Win = Win and bin = bin and Wout = Wout]
    by (simp add: net_def out_def lab_def x_def)
  have p: "length (Parameters net) = 2 * H + 1 \<longleftrightarrow> distinct ?ps"
    using network_counts(5) [OF assms(1,2,3), where inputDim = inputDim
        and numOutputClasses = numOutputClasses and Win = Win and bin = bin and Wout = Wout]
    by (simp add: net_def out_def lab_def x_def)
  have ok: "check_structure net H = Inr ()" if "distinct ?ps"
    using that a o p check_structure_cases [of net H] by simp
  have bad: "check_structure net H = Inl (RuntimeError
      ''EvaluationNewNetworkWithSharedParameters: Function does not have expected Parameter count'')"
    if "\<not> distinct ?ps"
    using that p check_structure_cases [of net H] by simp
  show "\<exists>m. create_network inputDim numOutputClasses H Win bin Ws bs Wout = Inr m
            \<and> length (Arguments (cm_ffNet m)) = 2
            \<and> length (Outputs (cm_ffNet m)) = 3
            \<and> (distinct ?ps \<longrightarrow>
                  length (Parameters (cm_ffNet m)) = 2 * H + 1
                \<and> check_structure (cm_ffNet m) H = Inr ())
            \<and> (\<not> distinct ?ps \<longrightarrow>
                  length (Parameters (cm_ffNet m)) \<noteq> 2 * H + 1
                \<and> EvaluationNewNetworkWithSharedParameters g inputDim numOutputClasses H Win bin Ws bs
                      Wout device s
                    = Inl (RuntimeError
                        ''EvaluationNewNetworkWithSharedParameters: Function does not have expected Parameter count''))"
    using cn a o p ok bad driver_raises_check_error [OF cn, of _ g device s]
    by (intro exI [of _ m]) (simp add: ff)
next
  show "\<forall>f K.
             (length (Parameters f) \<noteq> 2 * K + 1 \<longrightarrow> check_structure f K = Inl (RuntimeError
                ''EvaluationNewNetworkWithSharedParameters: Function does not have expected Parameter count''))
           \<and> (length (Parameters f) = 2 * K + 1 \<and> length (Arguments f) \<noteq> 2 \<longrightarrow>
                check_structure f K = Inl (RuntimeError
                ''EvaluationNewNetworkWithSharedParameters: Function does not have expected Argument count''))
           \<and> (length (Parameters f) = 2 * K + 1 \<and> length (Arguments f) = 2 \<and> length (Outputs f) \<noteq> 3 \<longrightarrow>
                check_structure f K = Inl (RuntimeError
                ''EvaluationNewNetworkWithSharedParameters: Function does not have expected Output count''))
           \<and> (length (Parameters f) = 2 * K + 1 \<and> length (Arguments f) = 2 \<and> length (Outputs f) = 3 \<longrightarrow>
                check_structure f K = Inr ())"
    using check_structure_cases by blast
next
  show "\<forall>m e. create_network inputDim numOutputClasses H Win bin Ws bs Wout = Inr m
                 \<and> check_structure (cm_ffNet m) H = Inl e \<longrightarrow>
             EvaluationNewNetworkWithSharedParameters g inputDim numOutputClasses H Win bin Ws bs Wout
                 device s = Inl e"
    by (intro allI impI, elim conjE, rule driver_raises_check_error)
qed

theorem structural_validation_witness:
  "(\<exists>m. create_network 3 2 2 (Parameter 0 [4, 3] (ConstantValue 0) CPUDevice) (Parameter 1 [4] (ConstantValue 0) CPUDevice) [Parameter 2 [4, 4] (ConstantValue 0) CPUDevice] [Parameter 3 [4] (ConstantValue 0) CPUDevice] (Parameter 4 [2, 4] (ConstantValue 0) CPUDevice) = Inr m
        \<and> length (Parameters (cm_ffNet m)) = 5
        \<and> length (Arguments (cm_ffNet m)) = 2
        \<and> length (Outputs (cm_ffNet m)) = 3
        \<and> check_structure (cm_ffNet m) 2 = Inr ())
   \<and> EvaluationNewNetworkWithSharedParameters ansi_rand 3 2 2 (Parameter 0 [4, 3] (ConstantValue 0) CPUDevice) (Parameter 1 [4] (ConstantValue 0) CPUDevice) [Parameter 2 [4, 4] (ConstantValue 0) CPUDevice] [(Parameter 1 [4] (ConstantValue 0) CPUDevice)] (Parameter 4 [2, 4] (ConstantValue 0) CPUDevice) CPUDevice 0
        = Inl (RuntimeError ''EvaluationNewNetworkWithSharedParameters: Function does not have expected Parameter count'')
   \<and> check_structure (ParameterVariable (Parameter 0 [4, 3] (ConstantValue 0) CPUDevice)) 0 = Inl (RuntimeError ''EvaluationNewNetworkWithSharedParameters: Function does not have expected Argument count'')
   \<and> check_structure (Plus_op (ParameterVariable (Parameter 0 [4, 3] (ConstantValue 0) CPUDevice))
          (Plus_op (InputVariable [3] Float ''a'') (InputVariable [3] Float ''b'') []) []) 0
        = Inl (RuntimeError ''EvaluationNewNetworkWithSharedParameters: Function does not have expected Output count'')"
proof -
  have a: "\<exists>m. create_network 3 2 2 (Parameter 0 [4, 3] (ConstantValue 0) CPUDevice) (Parameter 1 [4] (ConstantValue 0) CPUDevice) [Parameter 2 [4, 4] (ConstantValue 0) CPUDevice] [Parameter 3 [4] (ConstantValue 0) CPUDevice] (Parameter 4 [2, 4] (ConstantValue 0) CPUDevice) = Inr m
        \<and> length (Parameters (cm_ffNet m)) = 5
        \<and> length (Arguments (cm_ffNet m)) = 2
        \<and> length (Outputs (cm_ffNet m)) = 3
        \<and> check_structure (cm_ffNet m) 2 = Inr ()"
    using structural_validation [where H = 2 and inputDim = 3 and numOutputClasses = 2
        and Win = "Parameter 0 [4, 3] (ConstantValue 0) CPUDevice" and bin = "Parameter 1 [4] (ConstantValue 0) CPUDevice" and Ws = "[Parameter 2 [4, 4] (ConstantValue 0) CPUDevice]" and bs = "[Parameter 3 [4] (ConstantValue 0) CPUDevice]" and Wout = "Parameter 4 [2, 4] (ConstantValue 0) CPUDevice"
        and g = ansi_rand and device = CPUDevice and s = 0, THEN conjunct1]
    by (auto simp: matrix_param_def vector_param_def Rank_def)
  have b: "EvaluationNewNetworkWithSharedParameters ansi_rand 3 2 2 (Parameter 0 [4, 3] (ConstantValue 0) CPUDevice) (Parameter 1 [4] (ConstantValue 0) CPUDevice) [Parameter 2 [4, 4] (ConstantValue 0) CPUDevice] [(Parameter 1 [4] (ConstantValue 0) CPUDevice)] (Parameter 4 [2, 4] (ConstantValue 0) CPUDevice) CPUDevice 0
        = Inl (RuntimeError ''EvaluationNewNetworkWithSharedParameters: Function does not have expected Parameter count'')"
    using structural_validation [where H = 2 and inputDim = 3 and numOutputClasses = 2
        and Win = "Parameter 0 [4, 3] (ConstantValue 0) CPUDevice" and bin = "Parameter 1 [4] (ConstantValue 0) CPUDevice" and Ws = "[Parameter 2 [4, 4] (ConstantValue 0) CPUDevice]" and bs = "[(Parameter 1 [4] (ConstantValue 0) CPUDevice)]" and Wout = "Parameter 4 [2, 4] (ConstantValue 0) CPUDevice"
        and g = ansi_rand and device = CPUDevice and s = 0, THEN conjunct1]
    by (auto simp: matrix_param_def vector_param_def Rank_def)
  note checks = structural_validation [where H = 2 and inputDim = 3 and numOutputClasses = 2
        and Win = "Parameter 0 [4, 3] (ConstantValue 0) CPUDevice" and bin = "Parameter 1 [4] (ConstantValue 0) CPUDevice" and Ws = "[Parameter 2 [4, 4] (ConstantValue 0) CPUDevice]" and bs = "[Parameter 3 [4] (ConstantValue 0) CPUDevice]" and Wout = "Parameter 4 [2, 4] (ConstantValue 0) CPUDevice"
        and g = ansi_rand and device = CPUDevice and s = 0, THEN conjunct2, THEN conjunct1]
  have c: "check_structure (ParameterVariable (Parameter 0 [4, 3] (ConstantValue 0) CPUDevice)) 0 = Inl (RuntimeError ''EvaluationNewNetworkWithSharedParameters: Function does not have expected Argument count'')"
    using checks [THEN spec, of "ParameterVariable (Parameter 0 [4, 3] (ConstantValue 0) CPUDevice)", THEN spec, of 0]
    by (simp add: matrix_param_def vector_param_def Rank_def Parameters_def Arguments_def)
  have d: "check_structure (Plus_op (ParameterVariable (Parameter 0 [4, 3] (ConstantValue 0) CPUDevice))
          (Plus_op (InputVariable [3] Float ''a'') (InputVariable [3] Float ''b'') []) []) 0
        = Inl (RuntimeError ''EvaluationNewNetworkWithSharedParameters: Function does not have expected Output count'')"
    using checks [THEN spec, of "Plus_op (ParameterVariable (Parameter 0 [4, 3] (ConstantValue 0) CPUDevice))
          (Plus_op (InputVariable [3] Float ''a'') (InputVariable [3] Float ''b'') []) []", THEN spec, of 0]
    by (simp add: matrix_param_def vector_param_def Rank_def Parameters_def Arguments_def)
  show ?thesis using a b c d by (intro conjI)
qed

section \<open>The loops of the evaluation driver\<close>

lemma row_index_less:
  fixes i k C j :: nat
  assumes "i < k" and "j < C"
  shows "i * C + j < k * C"
proof -
  have "i * C + j < i * C + C" using assms(2) by simp
  also have "\<dots> = Suc i * C" by simp
  also have "\<dots> \<le> k * C" using assms(1) by (intro mult_le_mono1) simp
  finally show ?thesis .
qed

lemma labelled_step:
  assumes inv: "labelled_up_to ld C n k" and k: "k < n" and j: "j < C"
  shows "k * C + j < length ld" and "labelled_up_to (ld[k * C + j := 1]) C n (Suc k)"
proof -
  have len: "length ld = C * n" using inv by (simp add: labelled_up_to_def)
  have "k * C + j < n * C" using k j by (rule row_index_less)
  then show inb: "k * C + j < length ld" by (simp add: len mult.commute)
  have rows: "\<exists>j0 < C. \<forall>j' < C. (ld[k * C + j := 1]) ! (i * C + j') = (if j' = j0 then 1 else 0)"
    if "i < Suc k" for i
  proof (cases "i < k")
    case True
    then obtain j0 where j0: "j0 < C" "\<forall>j' < C. ld ! (i * C + j') = (if j' = j0 then 1 else 0)"
      using inv by (auto simp: labelled_up_to_def)
    have "(ld[k * C + j := 1]) ! (i * C + j') = ld ! (i * C + j')" if "j' < C" for j'
      using row_index_less [OF True that] by simp
    then show ?thesis using j0 by auto
  next
    case False
    then have ik: "i = k" using that by simp
    have "(ld[k * C + j := 1]) ! (k * C + j') = (if j' = j then 1 else 0)" if "j' < C" for j'
    proof (cases "j' = j")
      case True
      then show ?thesis using inb by simp
    next
      case False
      have "k * C + j' < n * C" using k that by (rule row_index_less)
      then have "ld ! (k * C + j') = 0"
        using inv by (simp add: labelled_up_to_def mult.commute)
      then show ?thesis using False by simp
    qed
    then show ?thesis using j ik by auto
  qed
  have zeros: "(ld[k * C + j := 1]) ! p = 0" if "Suc k * C \<le> p \<and> p < C * n" for p
  proof -
    have "k * C + j < p" using that j by simp
    moreover have "ld ! p = 0" using inv that by (simp add: labelled_up_to_def)
    ultimately show ?thesis by simp
  qed
  show "labelled_up_to (ld[k * C + j := 1]) C n (Suc k)"
    unfolding labelled_up_to_def using len rows zeros by simp
qed

lemma label_loop:
  assumes C: "0 < C"
  shows "k \<le> n \<Longrightarrow>
         \<exists>ld s'. fold (label_step g C) [0 ..< k] (Inr (replicate (C * n) 0, s)) = Inr (ld, s')
                \<and> labelled_up_to ld C n k"
proof (induction k)
  case 0
  then show ?case by (simp add: labelled_up_to_def)
next
  case (Suc k)
  then obtain ld s' where f: "fold (label_step g C) [0 ..< k] (Inr (replicate (C * n) 0, s)) = Inr (ld, s')"
    and inv: "labelled_up_to ld C n k" by auto
  obtain r s'' where r: "rand g s' = (r, s'')" by (cases "rand g s'")
  have j: "r mod C < C" using C by simp
  have k: "k < n" using Suc.prems by simp
  note st = labelled_step [OF inv k j]
  have "fold (label_step g C) [0 ..< Suc k] (Inr (replicate (C * n) 0, s))
        = Inr (ld[k * C + r mod C := 1], s'')"
    using f r C st(1) by (simp add: label_step_def Let_def)
  then show ?case using st(2) by blast
qed

lemma label_loop_one_hot:
  assumes "0 < C"
  shows "\<exists>ld s'. fold (label_step g C) [0 ..< n] (Inr (replicate (C * n) 0, s)) = Inr (ld, s')
                \<and> one_hot_rows ld C n"
proof -
  from label_loop [OF assms, of n n g s]
  obtain ld s' where "fold (label_step g C) [0 ..< n] (Inr (replicate (C * n) 0, s)) = Inr (ld, s')"
    and "labelled_up_to ld C n n" by auto
  then show ?thesis by (auto simp: labelled_up_to_def one_hot_rows_def)
qed


lemma input_loop_length:
  "length (fst (fold (input_step g) [0 ..< k] (xs, s))) = length xs"
  by (induction k) (auto simp: input_step_def split: prod.splits)


lemma fold_evaluation_step_error:
  "fold (evaluation_step g a b n x l co pr dev) ts (Inl e) = Inl e"
  by (induction ts) (simp_all add: evaluation_step_def)

lemma evaluation_step_Inl:
  "evaluation_step g a b n x l co pr dev t (Inl e) = Inl e"
  by (simp add: evaluation_step_def)

lemma evaluation_step_Inr:
  "evaluation_step g a b n x l co pr dev t (Inr (calls, s)) =
     (case evaluation_run g a b n x l co pr dev s of
        Inl e \<Rightarrow> Inl e
      | Inr (c, s') \<Rightarrow> Inr (calls @ [c], s'))"
  by (simp add: evaluation_step_def)

lemma evaluation_fold_calls:
  assumes "\<And>s c s'. evaluation_run g a b n x l co pr dev s = Inr (c, s') \<Longrightarrow> P c"
  shows "fold (evaluation_step g a b n x l co pr dev) ts (Inr (calls, s)) = Inr (calls', s') \<Longrightarrow>
         \<forall>c \<in> set calls. P c \<Longrightarrow> \<forall>c \<in> set calls'. P c"
proof (induction ts arbitrary: calls s)
  case Nil
  then show ?case by simp
next
  case (Cons t ts)
  show ?case
  proof (cases "evaluation_run g a b n x l co pr dev s")
    case (Inl e)
    then show ?thesis using Cons.prems(1)
      by (simp add: evaluation_step_Inr fold_evaluation_step_error)
  next
    case (Inr cs)
    obtain c s1 where cs: "cs = (c, s1)" by (cases cs)
    have "P c" using assms Inr cs by simp
    then have "\<forall>c \<in> set (calls @ [c]). P c" using Cons.prems(2) by simp
    moreover have "fold (evaluation_step g a b n x l co pr dev) ts (Inr (calls @ [c], s1)) = Inr (calls', s')"
      using Cons.prems(1) Inr cs by (simp add: evaluation_step_Inr)
    ultimately show ?thesis using Cons.IH by blast
  qed
qed

lemma evaluation_run_Inr:
  "evaluation_run g inputDim C n x l co pr dev s = Inr (c, s') \<longleftrightarrow>
     (\<exists>inputData s1 labelData.
        fold (input_step g) [0 ..< inputDim * n] (replicate (inputDim * n) 0, s) = (inputData, s1)
      \<and> fold (label_step g C) [0 ..< n] (Inr (replicate (C * n) 0, s1)) = Inr (labelData, s')
      \<and> c = \<lparr>fw_arguments =
                [(x, Value \<lparr>view_shape = [inputDim, 1, n], view_data = inputData,
                             view_size = length inputData, view_device = CPUDevice, view_readOnly = True\<rparr>),
                 (l, Value \<lparr>view_shape = [C, 1, n], view_data = labelData,
                             view_size = length labelData, view_device = CPUDevice, view_readOnly = True\<rparr>)],
              fw_outputs = [(co, None), (pr, None)], fw_device = dev\<rparr>)"
  by (auto simp: evaluation_run_def Let_def split: prod.splits sum.splits)

lemma evaluation_run_total:
  assumes "0 < C"
  shows "\<exists>c s'. evaluation_run g inputDim C n x l co pr dev s = Inr (c, s')"
proof -
  obtain inputData s1 where i: "fold (input_step g) [0 ..< inputDim * n] (replicate (inputDim * n) 0, s) = (inputData, s1)"
    by (cases "fold (input_step g) [0 ..< inputDim * n] (replicate (inputDim * n) 0, s)")
  from label_loop_one_hot [OF assms, of g n s1]
  obtain ld s' where "fold (label_step g C) [0 ..< n] (Inr (replicate (C * n) 0, s1)) = Inr (ld, s')"
    by auto
  with i show ?thesis by (simp add: evaluation_run_Inr)
qed

lemma upt_4: "[0 ..< 4] = [0, 1, 2, 3]"
  by (simp add: upt_rec)

lemma evaluation_steps_4:
  "fold (evaluation_step g a b n x l co pr dev) [0 ..< 4] (Inr ([], s0)) = Inr (calls, s4) \<longleftrightarrow>
     (\<exists>c0 s1 c1 s2 c2 s3 c3.
        evaluation_run g a b n x l co pr dev s0 = Inr (c0, s1)
      \<and> evaluation_run g a b n x l co pr dev s1 = Inr (c1, s2)
      \<and> evaluation_run g a b n x l co pr dev s2 = Inr (c2, s3)
      \<and> evaluation_run g a b n x l co pr dev s3 = Inr (c3, s4)
      \<and> calls = [c0, c1, c2, c3])"
  unfolding upt_4
  by (auto simp: evaluation_step_Inr evaluation_step_Inl split: sum.splits prod.splits)

lemma driver_Inr:
  "EvaluationNewNetworkWithSharedParameters g inputDim C H Win bin Ws bs Wout dev s = Inr (calls, s') \<longleftrightarrow>
     (\<exists>m. create_network inputDim C H Win bin Ws bs Wout = Inr m
        \<and> check_structure (cm_ffNet m) H = Inr ()
        \<and> fold (evaluation_step g inputDim C 3 (cm_inputVar m) (cm_labelsVar m)
                  (cm_classifierOutputFunction m) (cm_predictionFunction m) dev)
             [0 ..< 4] (Inr ([], srand g 2 s)) = Inr (calls, s'))"
  by (auto simp: EvaluationNewNetworkWithSharedParameters_def Let_def split: sum.splits)

lemma create_network_vars:
  "create_network inputDim C H Win bin Ws bs Wout = Inr m \<Longrightarrow>
   cm_inputVar m = InputVariable [inputDim] Float ''Features'' \<and>
   cm_labelsVar m = InputVariable [C] Float ''Labels''"
  by (auto simp: create_network_def Let_def split: sum.splits)

lemma driver_calls:
  assumes "EvaluationNewNetworkWithSharedParameters g inputDim C H Win bin Ws bs Wout dev s = Inr (calls, s')"
    and "\<And>co pr s c s'. evaluation_run g inputDim C 3 (InputVariable [inputDim] Float ''Features'')
            (InputVariable [C] Float ''Labels'') co pr dev s = Inr (c, s') \<Longrightarrow> P c"
  shows "\<forall>c \<in> set calls. P c"
proof -
  from assms(1) obtain m where m: "create_network inputDim C H Win bin Ws bs Wout = Inr m"
    and f: "fold (evaluation_step g inputDim C 3 (cm_inputVar m) (cm_labelsVar m)
                  (cm_classifierOutputFunction m) (cm_predictionFunction m) dev)
             [0 ..< 4] (Inr ([], srand g 2 s)) = Inr (calls, s')"
    unfolding driver_Inr by blast
  note v = create_network_vars [OF m]
  show ?thesis
    using evaluation_fold_calls [where P = P, OF _ f [unfolded v [THEN conjunct1] v [THEN conjunct2]]] assms(2)
    by simp
qed

lemma driver_total:
  assumes "create_network inputDim C H Win bin Ws bs Wout = Inr m"
    and "check_structure (cm_ffNet m) H = Inr ()" and "0 < C"
  shows "\<exists>calls s'. EvaluationNewNetworkWithSharedParameters g inputDim C H Win bin Ws bs Wout dev s
            = Inr (calls, s') \<and> length calls = 4"
proof -
  let ?run = "evaluation_run g inputDim C 3 (cm_inputVar m) (cm_labelsVar m)
      (cm_classifierOutputFunction m) (cm_predictionFunction m) dev"
  have tot: "\<exists>c s'. ?run s = Inr (c, s')" for s
    by (rule evaluation_run_total [OF assms(3)])
  obtain c0 s1 where r0: "?run (srand g 2 s) = Inr (c0, s1)"
    using tot [of "srand g 2 s"] by auto
  obtain c1 s2 where r1: "?run s1 = Inr (c1, s2)"
    using tot [of s1] by auto
  obtain c2 s3 where r2: "?run s2 = Inr (c2, s3)"
    using tot [of s2] by auto
  obtain c3 s4 where r3: "?run s3 = Inr (c3, s4)"
    using tot [of s3] by auto
  have "EvaluationNewNetworkWithSharedParameters g inputDim C H Win bin Ws bs Wout dev s
            = Inr ([c0, c1, c2, c3], s4)"
    unfolding driver_Inr evaluation_steps_4 using assms(1,2) r0 r1 r2 r3 by auto
  then show ?thesis by simp
qed

lemma fold_label_step_error:
  "fold (label_step g C) ts (Inl e) = Inl e"
  by (induction ts) (simp_all add: label_step_def)

lemma label_loop_length:
  "fold (label_step g C) ts (Inr (ld0, s0)) = Inr (ld, s') \<Longrightarrow> length ld = length ld0"
proof (induction ts arbitrary: ld0 s0)
  case Nil
  then show ?case by simp
next
  case (Cons t ts)
  show ?case
  proof (cases "label_step g C t (Inr (ld0, s0))")
    case (Inl e)
    then show ?thesis using Cons.prems by (simp add: fold_label_step_error)
  next
    case (Inr p)
    obtain ld1 s1 where p: "p = (ld1, s1)" by (cases p)
    have "length ld1 = length ld0"
      using Inr p by (auto simp: label_step_def Let_def split: prod.splits if_splits)
    moreover have "length ld = length ld1" using Cons.prems Cons.IH [of ld1 s1] Inr p by simp
    ultimately show ?thesis by simp
  qed
qed

lemma evaluation_run_views:
  assumes "evaluation_run g inputDim C n x l co pr dev s = Inr (c, s')" and "x \<noteq> l"
  shows "\<exists>iv lv s1.
           passed_view c x = Some iv \<and> passed_view c l = Some lv
         \<and> fold (input_step g) [0 ..< inputDim * n] (replicate (inputDim * n) 0, s) = (view_data iv, s1)
         \<and> fold (label_step g C) [0 ..< n] (Inr (replicate (C * n) 0, s1)) = Inr (view_data lv, s')
         \<and> view_shape iv = [inputDim, 1, n] \<and> view_shape lv = [C, 1, n]
         \<and> view_size iv = length (view_data iv) \<and> view_size lv = length (view_data lv)
         \<and> view_readOnly iv \<and> view_readOnly lv
         \<and> view_device iv = CPUDevice \<and> view_device lv = CPUDevice"
  using assms unfolding evaluation_run_Inr by (auto simp: passed_view_def)

lemma features_not_labels:
  "InputVariable [inputDim] Float ''Features'' \<noteq> InputVariable [C] Float ''Labels''"
  by simp



lemma ex_network:
  "\<exists>m. create_network 1 2 1 ex_inputTimesParam ex_inputPlusParam [] [] ex_outputTimesParam = Inr m
      \<and> check_structure (cm_ffNet m) 1 = Inr ()"
  by (simp add: create_network_def FullyConnectedFeedForwardClassifierNetWithSharedParameters_def
      FullyConnectedDNNLayerWithSharedParameters_def Let_def Rank_def check_structure_def
      Parameters_def Arguments_def ex_inputTimesParam_def ex_inputPlusParam_def ex_outputTimesParam_def)

lemma ex_driver_total:
  "\<exists>calls s'. ex_driver g s = Inr (calls, s') \<and> length calls = 4"
proof -
  obtain m where "create_network 1 2 1 ex_inputTimesParam ex_inputPlusParam [] [] ex_outputTimesParam = Inr m"
    and "check_structure (cm_ffNet m) 1 = Inr ()"
    using ex_network by blast
  from driver_total [OF this, of g CPUDevice s] show ?thesis
    by (simp add: ex_driver_def)
qed





section \<open>The input buffer\<close>




section \<open>The label buffer\<close>

text \<open>
  Claim C4. With at least one output class, the label loop returns a buffer that is one-hot
  per sample: one row of \<open>numOutputClasses\<close> entries for each of the \<open>numSamples\<close> samples,
  and in every row exactly one entry is 1 and all the others are 0. The label buffer of
  every forward call the driver makes is such a buffer, with 3 samples.
\<close>

theorem label_buffer_one_hot:
  assumes "0 < numOutputClasses"
  shows "(\<exists>labelData s'.
            fold (label_step g numOutputClasses) [0 ..< numSamples]
              (Inr (replicate (numOutputClasses * numSamples) 0, s)) = Inr (labelData, s')
          \<and> one_hot_rows labelData numOutputClasses numSamples)
       \<and> (\<forall>calls s'.
             EvaluationNewNetworkWithSharedParameters g inputDim numOutputClasses numHiddenLayers
                 inputTimesParam inputPlusParam hiddenLayerTimesParam hiddenLayerPlusParam
                 outputTimesParam computeDevice s = Inr (calls, s') \<longrightarrow>
             (\<forall>c \<in> set calls. \<exists>view.
                 passed_view c (InputVariable [numOutputClasses] Float ''Labels'') = Some view
               \<and> one_hot_rows (view_data view) numOutputClasses 3))"
proof (intro conjI allI impI)
  show "\<exists>labelData s'.
            fold (label_step g numOutputClasses) [0 ..< numSamples]
              (Inr (replicate (numOutputClasses * numSamples) 0, s)) = Inr (labelData, s')
          \<and> one_hot_rows labelData numOutputClasses numSamples"
    by (rule label_loop_one_hot [OF assms])
next
  fix calls s'
  assume d: "EvaluationNewNetworkWithSharedParameters g inputDim numOutputClasses numHiddenLayers
                 inputTimesParam inputPlusParam hiddenLayerTimesParam hiddenLayerPlusParam
                 outputTimesParam computeDevice s = Inr (calls, s')"
  show "\<forall>c \<in> set calls. \<exists>view.
                 passed_view c (InputVariable [numOutputClasses] Float ''Labels'') = Some view
               \<and> one_hot_rows (view_data view) numOutputClasses 3"
  proof (rule driver_calls [OF d])
    fix co pr s0 c s1
    assume "evaluation_run g inputDim numOutputClasses 3 (InputVariable [inputDim] Float ''Features'')
        (InputVariable [numOutputClasses] Float ''Labels'') co pr computeDevice s0 = Inr (c, s1)"
    from evaluation_run_views [OF this features_not_labels]
    obtain lv s2 where p: "passed_view c (InputVariable [numOutputClasses] Float ''Labels'') = Some lv"
      and f: "fold (label_step g numOutputClasses) [0 ..< 3]
                (Inr (replicate (numOutputClasses * 3) 0, s2)) = Inr (view_data lv, s1)"
      by blast
    from label_loop_one_hot [OF assms, of g 3 s2] f
    have "one_hot_rows (view_data lv) numOutputClasses 3" by auto
    with p show "\<exists>view. passed_view c (InputVariable [numOutputClasses] Float ''Labels'') = Some view
               \<and> one_hot_rows (view_data view) numOutputClasses 3" by blast
  qed
qed

theorem label_buffer_one_hot_witness:
  "fold (label_step ansi_rand 2) [0 ..< 3] (Inr (replicate (2 * 3) 0, 2))
     = Inr ([1, 0, 0, 1, 0, 1], 2818548041)
   \<and> one_hot_rows [1, 0, 0, 1, 0, 1] 2 3
   \<and> (\<exists>calls s'. ex_driver ansi_rand 0 = Inr (calls, s') \<and> length calls = 4
        \<and> list_all (\<lambda>c. \<exists>view. passed_view c (InputVariable [2] Float ''Labels'') = Some view
                          \<and> one_hot_rows (view_data view) 2 3) calls)"
proof -
  have e: "fold (label_step ansi_rand 2) [0 ..< 3] (Inr (replicate (2 * 3) 0, 2))
     = Inr ([1, 0, 0, 1, 0, 1], 2818548041)"
    by (simp add: upt_rec label_step_def ansi_rand_simps Let_def) (simp add: eval_nat_numeral)
  from label_buffer_one_hot [where numOutputClasses = 2 and numSamples = 3 and g = ansi_rand and s = 2,
      THEN conjunct1] e
  have o: "one_hot_rows [1, 0, 0, 1, 0, 1] 2 3" by simp
  obtain calls s' where d: "ex_driver ansi_rand 0 = Inr (calls, s')" and l: "length calls = 4"
    using ex_driver_total [of ansi_rand 0] by auto
  have "0 < (2::nat)" by simp
  from label_buffer_one_hot [OF this, THEN conjunct2, rule_format, OF d [unfolded ex_driver_def]]
  have "list_all (\<lambda>c. \<exists>view. passed_view c (InputVariable [2] Float ''Labels'') = Some view
                          \<and> one_hot_rows (view_data view) 2 3) calls"
    by (simp add: list_all_iff)
  with e o d l show ?thesis by blast
qed

section \<open>Shapes of the tensor views passed to forward evaluation\<close>

text \<open>
  Claim C5. In an iteration with \<open>N\<close> samples the view passed for the feature input has
  shape \<open>[inputDim, 1, N]\<close> over a buffer of \<open>inputDim * N\<close> elements, and the view passed
  for the label input has shape \<open>[numOutputClasses, 1, N]\<close> over a buffer of
  \<open>numOutputClasses * N\<close> elements; both views are passed read-only, so forward evaluation
  is given no way to alter them. Every forward call of the driver passes such views, with
  \<open>N = 3\<close>.
\<close>

theorem forward_tensor_shapes:
  "(\<forall>c s'. evaluation_run g inputDim numOutputClasses N x l co pr dev s = Inr (c, s') \<and> x \<noteq> l \<longrightarrow>
      (\<exists>iv lv. passed_view c x = Some iv \<and> passed_view c l = Some lv
         \<and> view_shape iv = [inputDim, 1, N] \<and> view_shape lv = [numOutputClasses, 1, N]
         \<and> length (view_data iv) = inputDim * N \<and> length (view_data lv) = numOutputClasses * N
         \<and> view_size iv = inputDim * N \<and> view_size lv = numOutputClasses * N
         \<and> view_readOnly iv \<and> view_readOnly lv))
   \<and> (\<forall>calls s'.
         EvaluationNewNetworkWithSharedParameters g inputDim numOutputClasses numHiddenLayers
             inputTimesParam inputPlusParam hiddenLayerTimesParam hiddenLayerPlusParam
             outputTimesParam computeDevice s = Inr (calls, s') \<longrightarrow>
         (\<forall>c \<in> set calls. \<exists>iv lv.
             passed_view c (InputVariable [inputDim] Float ''Features'') = Some iv
           \<and> passed_view c (InputVariable [numOutputClasses] Float ''Labels'') = Some lv
           \<and> view_shape iv = [inputDim, 1, 3] \<and> view_shape lv = [numOutputClasses, 1, 3]
           \<and> length (view_data iv) = inputDim * 3 \<and> length (view_data lv) = numOutputClasses * 3
           \<and> view_size iv = inputDim * 3 \<and> view_size lv = numOutputClasses * 3
           \<and> view_readOnly iv \<and> view_readOnly lv))"
proof -
  have run: "\<exists>iv lv. passed_view c x = Some iv \<and> passed_view c l = Some lv
         \<and> view_shape iv = [inputDim, 1, N] \<and> view_shape lv = [numOutputClasses, 1, N]
         \<and> length (view_data iv) = inputDim * N \<and> length (view_data lv) = numOutputClasses * N
         \<and> view_size iv = inputDim * N \<and> view_size lv = numOutputClasses * N
         \<and> view_readOnly iv \<and> view_readOnly lv"
    if r: "evaluation_run g inputDim numOutputClasses N x l co pr dev s = Inr (c, s')" and ne: "x \<noteq> l"
    for c s' N x l co pr dev s
  proof -
    from evaluation_run_views [OF r ne]
    obtain iv lv s1 where p: "passed_view c x = Some iv" "passed_view c l = Some lv"
      and fi: "fold (input_step g) [0 ..< inputDim * N] (replicate (inputDim * N) 0, s) = (view_data iv, s1)"
      and fl: "fold (label_step g numOutputClasses) [0 ..< N]
                 (Inr (replicate (numOutputClasses * N) 0, s1)) = Inr (view_data lv, s')"
      and sh: "view_shape iv = [inputDim, 1, N]" "view_shape lv = [numOutputClasses, 1, N]"
      and sz: "view_size iv = length (view_data iv)" "view_size lv = length (view_data lv)"
      and ro: "view_readOnly iv" "view_readOnly lv"
      by blast
    have li: "length (view_data iv) = inputDim * N"
      using input_loop_length [of g "inputDim * N" "replicate (inputDim * N) 0" s] fi by simp
    have ll: "length (view_data lv) = numOutputClasses * N"
      using label_loop_length [OF fl] by simp
    show ?thesis using p sh sz ro li ll by simp
  qed
  show ?thesis
  proof (intro conjI allI impI)
    fix c s'
    assume "evaluation_run g inputDim numOutputClasses N x l co pr dev s = Inr (c, s') \<and> x \<noteq> l"
    then show "\<exists>iv lv. passed_view c x = Some iv \<and> passed_view c l = Some lv
         \<and> view_shape iv = [inputDim, 1, N] \<and> view_shape lv = [numOutputClasses, 1, N]
         \<and> length (view_data iv) = inputDim * N \<and> length (view_data lv) = numOutputClasses * N
         \<and> view_size iv = inputDim * N \<and> view_size lv = numOutputClasses * N
         \<and> view_readOnly iv \<and> view_readOnly lv"
      using run by blast
  next
    fix calls s'
    assume d: "EvaluationNewNetworkWithSharedParameters g inputDim numOutputClasses numHiddenLayers
             inputTimesParam inputPlusParam hiddenLayerTimesParam hiddenLayerPlusParam
             outputTimesParam computeDevice s = Inr (calls, s')"
    show "\<forall>c \<in> set calls. \<exists>iv lv.
             passed_view c (InputVariable [inputDim] Float ''Features'') = Some iv
           \<and> passed_view c (InputVariable [numOutputClasses] Float ''Labels'') = Some lv
           \<and> view_shape iv = [inputDim, 1, 3] \<and> view_shape lv = [numOutputClasses, 1, 3]
           \<and> length (view_data iv) = inputDim * 3 \<and> length (view_data lv) = numOutputClasses * 3
           \<and> view_size iv = inputDim * 3 \<and> view_size lv = numOutputClasses * 3
           \<and> view_readOnly iv \<and> view_readOnly lv"
      by (rule driver_calls [OF d]) (rule run [OF _ features_not_labels])
  qed
qed

theorem forward_tensor_shapes_witness:
  "\<exists>calls s'. ex_driver ansi_rand 0 = Inr (calls, s') \<and> length calls = 4
     \<and> list_all (\<lambda>c. \<exists>iv lv.
             passed_view c (InputVariable [1] Float ''Features'') = Some iv
           \<and> passed_view c (InputVariable [2] Float ''Labels'') = Some lv
           \<and> view_shape iv = [1, 1, 3] \<and> view_shape lv = [2, 1, 3]
           \<and> length (view_data iv) = 3 \<and> length (view_data lv) = 6
           \<and> view_readOnly iv \<and> view_readOnly lv) calls"
proof -
  obtain calls s' where d: "ex_driver ansi_rand 0 = Inr (calls, s')" and l: "length calls = 4"
    using ex_driver_total [of ansi_rand 0] by auto
  from forward_tensor_shapes [THEN conjunct2, rule_format, OF d [unfolded ex_driver_def]]
  have "list_all (\<lambda>c. \<exists>iv lv.
             passed_view c (InputVariable [1] Float ''Features'') = Some iv
           \<and> passed_view c (InputVariable [2] Float ''Labels'') = Some lv
           \<and> view_shape iv = [1, 1, 3] \<and> view_shape lv = [2, 1, 3]
           \<and> length (view_data iv) = 3 \<and> length (view_data lv) = 6
           \<and> view_readOnly iv \<and> view_readOnly lv) calls"
    unfolding list_all_iff by fastforce
  with d l show ?thesis by blast
qed

section \<open>The runs of the evaluation loop\<close>



section \<open>Reseeding makes the driver deterministic\<close>





section \<open>The thread fan-out\<close>













section \<open>The clone entry point\<close>

lemma clone_network_value:
  "\<exists>ffNet. clone_network device = Inr ffNet
      \<and> length (Parameters ffNet) = 13 \<and> length (Arguments ffNet) = 2 \<and> length (Outputs ffNet) = 3
      \<and> Arguments ffNet = [InputVariable [9304] Float ''Labels'', InputVariable [937] Float ''features'']"
  by (simp add: clone_network_def clone_layer_step_def SetupFullyConnectedDNNLayer_def
      SetupFullyConnectedLinearLayer_def array_at_def Rank_def Let_def upt_rec
      Parameters_def Arguments_def)

text \<open>
  Claim C10. For every device the clone entry point builds its classifier graph, which
  has 13 parameters, 2 arguments and 3 outputs, so the three checks pass; then, for every
  thread count, all it does is print one line and return: it starts no thread, joins none
  and makes no forward evaluation. The graph and the checks do not depend on the thread
  count, which occurs only as the first argument of the printed line.
\<close>

theorem clone_entry_point_only_validates:
  "\<exists>ffNet.
      clone_network device = Inr ffNet
    \<and> length (Parameters ffNet) = 2 * 6 + 1 \<and> length (Arguments ffNet) = 2 \<and> length (Outputs ffNet) = 3
    \<and> (\<forall>threadCount.
          EvalMultiThreadsWithClone device threadCount
            = Inr [Fprintf ''%d, %p, %p\<newline>''
                     [ArgInt threadCount, ArgVariables (Arguments ffNet), ArgVariables (Outputs ffNet)]]
        \<and> started_workers [Fprintf ''%d, %p, %p\<newline>''
                     [ArgInt threadCount, ArgVariables (Arguments ffNet), ArgVariables (Outputs ffNet)]] = []
        \<and> joined_threads [Fprintf ''%d, %p, %p\<newline>''
                     [ArgInt threadCount, ArgVariables (Arguments ffNet), ArgVariables (Outputs ffNet)]] = []
        \<and> forward_evaluations [Fprintf ''%d, %p, %p\<newline>''
                     [ArgInt threadCount, ArgVariables (Arguments ffNet), ArgVariables (Outputs ffNet)]] = []
        \<and> length (diagnostics [Fprintf ''%d, %p, %p\<newline>''
                     [ArgInt threadCount, ArgVariables (Arguments ffNet), ArgVariables (Outputs ffNet)]]) = 1)"
proof -
  obtain ffNet where c: "clone_network device = Inr ffNet"
    and n: "length (Parameters ffNet) = 13" "length (Arguments ffNet) = 2" "length (Outputs ffNet) = 3"
    using clone_network_value [of device] by blast
  show ?thesis
    using c n by (intro exI [of _ ffNet]) (simp add: EvalMultiThreadsWithClone_def Let_def)
qed

theorem clone_entry_point_only_validates_witness:
  "(\<exists>ffNet. EvalMultiThreadsWithClone CPUDevice 1
       = Inr [Fprintf ''%d, %p, %p\<newline>''
                [ArgInt 1, ArgVariables (Arguments ffNet), ArgVariables (Outputs ffNet)]]
     \<and> EvalMultiThreadsWithClone CPUDevice 16
       = Inr [Fprintf ''%d, %p, %p\<newline>''
                [ArgInt 16, ArgVariables (Arguments ffNet), ArgVariables (Outputs ffNet)]]
     \<and> length (Parameters ffNet) = 13)"
  using clone_entry_point_only_validates [of CPUDevice]
  by (elim exE conjE) (rule exI, simp)

end
